theory Spec2Isabelle
  imports Complex_Main "HOL-Library.Product_Lexorder"
begin

section \<open>Values of the program\<close>

text \<open>
  The builder of \<^verbatim>\<open>ECPBuilder.py\<close> works on numpy arrays of floats. A float is
  idealised as a real number, a one-dimensional array as a list, a two-dimensional
  array as the list of its rows. The metric is a Python string; the three strings the
  code compares it with are constructors of their own and every other string is
  \<open>OtherMetric\<close>.
\<close>

type_synonym vec = "real list"

datatype metric = IP | L2 | Cos | OtherMetric

datatype error =
    NotImplementedError
  | ValueError
  | UnboundLocalError
  | TypeError
  | KeyError
  | IndexError
  | ZeroDivisionError
  | AttributeError

subsection \<open>Vector arithmetic of the metrics\<close>

definition dot :: "vec \<Rightarrow> vec \<Rightarrow> real" where
  "dot x y = sum_list (map2 (*) x y)"

definition vsub :: "vec \<Rightarrow> vec \<Rightarrow> vec" where
  "vsub x y = map2 (-) x y"

definition l2norm :: "vec \<Rightarrow> real" where
  "l2norm x = sqrt (sum_list (map (\<lambda>a. a * a) x))"

text \<open>
  Modelled from the spec: the cosine similarity of two vectors. The source calls
  \<^verbatim>\<open>sklearn.metrics.pairwise.cosine_similarity\<close>, which is not part of the repository;
  it divides the dot product by the product of the norms and yields 0 for a zero vector
  (as the division by zero of HOL does).
\<close>

definition cosine_similarity :: "vec \<Rightarrow> vec \<Rightarrow> real" where
  "cosine_similarity x y = dot x y / (l2norm x * l2norm y)"

text \<open>
  \<^verbatim>\<open>np.argsort\<close>: the indices of an array in ascending order of their entries, equal
  entries in index order. \<^verbatim>\<open>np.linalg.norm\<close> without an axis is the norm of all
  entries of the matrix together.
\<close>

definition argsort :: "real list \<Rightarrow> nat list" where
  "argsort xs = sort_key (\<lambda>i. xs ! i) [0..<length xs]"

definition frobenius :: "vec list \<Rightarrow> real" where
  "frobenius m = l2norm (concat m)"

section \<open>The index tree and the builder\<close>

text \<open>
  A node of a level is the dictionary \<^verbatim>\<open>self.index[lvl][node]\<close>. The levels are keyed by
  \<^verbatim>\<open>"lvl_" + str(l)\<close> and the nodes by \<^verbatim>\<open>"node_" + str(n)\<close>; the model keys a node by
  the pair \<open>(l, n)\<close>. A missing key raises \<open>KeyError\<close>. The two entries of
  \<^verbatim>\<open>self.index["root"]\<close> are \<open>None\<close> while their key is absent.
\<close>

record node =
  embeddings :: "vec list"
  item_ids :: "nat list"
  node_ids :: "nat list"
  distances :: "real list"
  border :: "int \<times> real"

record tree_index =
  root_item_ids :: "nat list option"
  root_embeddings :: "vec list option"
  lvls :: "int \<times> nat \<Rightarrow> node option"

definition get_node :: "tree_index \<Rightarrow> int \<Rightarrow> nat \<Rightarrow> error + node" where
  "get_node idx l n = (case lvls idx (l, n) of None \<Rightarrow> Inl KeyError | Some nd \<Rightarrow> Inr nd)"

definition set_node :: "tree_index \<Rightarrow> int \<Rightarrow> nat \<Rightarrow> node \<Rightarrow> tree_index" where
  "set_node idx l n nd = idx\<lparr>lvls := (lvls idx)((l, n) \<mapsto> nd)\<rparr>"

section \<open>Ranking a query against reference rows\<close>

text \<open>
  The three scores of a query against the rows of a matrix, with what the libraries
  refuse. \<^verbatim>\<open>np.dot\<close> of a matrix and a vector needs rows as wide as the vector
  (\<open>ValueError\<close> otherwise). The subtraction \<^verbatim>\<open>matrix - vector\<close> broadcasts: the
  widths are equal, or the vector has one entry, or the rows have one entry; every
  other pair of widths is a \<open>ValueError\<close>. \<^verbatim>\<open>cosine_similarity\<close> refuses
  (\<open>ValueError\<close>) a matrix without rows, vectors without entries, and rows that are
  not as wide as the vector. A matrix is the list of its rows, so a matrix without rows
  has no width here.
\<close>

definition same_width :: "vec list \<Rightarrow> vec \<Rightarrow> bool" where
  "same_width refs emb = list_all (\<lambda>r. length r = length emb) refs"

definition dot_rows :: "vec list \<Rightarrow> vec \<Rightarrow> error + real list" where
  "dot_rows refs emb =
     (if same_width refs emb then Inr (map (\<lambda>r. dot r emb) refs) else Inl ValueError)"

definition broadcast_sub :: "vec \<Rightarrow> vec \<Rightarrow> vec option" where
  "broadcast_sub r emb =
     (if length r = length emb then Some (vsub r emb)
      else if length emb = 1 then Some (map (\<lambda>a. a - hd emb) r)
      else if length r = 1 then Some (map (\<lambda>q. hd r - q) emb)
      else None)"

definition sub_rows :: "vec list \<Rightarrow> vec \<Rightarrow> error + vec list" where
  "sub_rows refs emb =
     (if list_all (\<lambda>r. broadcast_sub r emb \<noteq> None) refs
      then Inr (map (\<lambda>r. the (broadcast_sub r emb)) refs)
      else Inl ValueError)"

definition cos_rows :: "vec list \<Rightarrow> vec \<Rightarrow> error + real list" where
  "cos_rows refs emb =
     (if refs = [] then Inl ValueError
      else if emb = [] then Inl ValueError
      else if same_width refs emb then Inr (map (\<lambda>r. cosine_similarity r emb) refs)
      else Inl ValueError)"

text \<open>
  \<^verbatim>\<open>distance_root_node\<close> ranks a query against the embeddings of the root. A metric that
  is none of the three strings leaves \<^verbatim>\<open>top\<close> unbound at the \<^verbatim>\<open>return\<close>.
\<close>

definition distance_root_node :: "metric \<Rightarrow> tree_index \<Rightarrow> vec \<Rightarrow> error + (nat list \<times> real list)" where
  "distance_root_node m idx emb =
     (case m of
        IP \<Rightarrow>
          (case root_embeddings idx of
             None \<Rightarrow> Inl KeyError
           | Some refs \<Rightarrow>
               (case dot_rows refs emb of
                  Inl e \<Rightarrow> Inl e
                | Inr dists \<Rightarrow>
                    (let tp = rev (argsort dists)
                     in Inr (tp, dists))))
      | L2 \<Rightarrow>
          (case root_embeddings idx of
             None \<Rightarrow> Inl KeyError
           | Some refs \<Rightarrow>
               (case sub_rows refs emb of
                  Inl e \<Rightarrow> Inl e
                | Inr differences \<Rightarrow>
                    (let dists = map l2norm differences;
                         tp = argsort dists
                     in Inr (tp, dists))))
      | Cos \<Rightarrow>
          (case root_embeddings idx of
             None \<Rightarrow> Inl KeyError
           | Some refs \<Rightarrow>
               (case cos_rows refs emb of
                  Inl e \<Rightarrow> Inl e
                | Inr dists \<Rightarrow>
                    (let tp = rev (argsort dists)
                     in Inr (tp, dists))))
      | OtherMetric \<Rightarrow> Inl UnboundLocalError)"

text \<open>
  \<^verbatim>\<open>distance_level_node\<close> ranks a query against the embeddings of node \<open>(l, n)\<close>. Its
  \<^verbatim>\<open>return top, distances\<close> stands inside the \<^verbatim>\<open>cos\<close> branch: the other branches compute
  their values and fall off the end of the function, which returns \<^verbatim>\<open>None\<close>
  (\<open>Inr None\<close> here). In the \<^verbatim>\<open>L2\<close> branch the norm has no axis, so it is one
  number, and \<^verbatim>\<open>np.argsort\<close> of one number is \<^verbatim>\<open>[0]\<close>.
\<close>

definition distance_level_node ::
  "metric \<Rightarrow> tree_index \<Rightarrow> vec \<Rightarrow> int \<Rightarrow> nat \<Rightarrow> error + (nat list \<times> real list) option" where
  "distance_level_node m idx emb l n =
     (case m of
        IP \<Rightarrow>
          (case get_node idx l n of
             Inl e \<Rightarrow> Inl e
           | Inr nd \<Rightarrow>
               (case dot_rows (embeddings nd) emb of
                  Inl e \<Rightarrow> Inl e
                | Inr dists \<Rightarrow>
                    (let tp = rev (argsort dists)
                     in Inr None)))
      | L2 \<Rightarrow>
          (case get_node idx l n of
             Inl e \<Rightarrow> Inl e
           | Inr nd \<Rightarrow>
               (case sub_rows (embeddings nd) emb of
                  Inl e \<Rightarrow> Inl e
                | Inr differences \<Rightarrow>
                    (let dists = frobenius differences;
                         tp = [0::nat]
                     in Inr None)))
      | Cos \<Rightarrow>
          (case get_node idx l n of
             Inl e \<Rightarrow> Inl e
           | Inr nd \<Rightarrow>
               (case cos_rows (embeddings nd) emb of
                  Inl e \<Rightarrow> Inl e
                | Inr dists \<Rightarrow>
                    (let tp = rev (argsort dists)
                     in Inr (Some (tp, dists)))))
      | OtherMetric \<Rightarrow> Inr None)"

section \<open>Borders and the align pass\<close>

text \<open>
  \<^verbatim>\<open>update_node_border_info\<close> sorts the distances of the node first and takes the
  \<^verbatim>\<open>argsort\<close> of the sorted array; the first entry of that (of its reverse for
  \<^verbatim>\<open>L2\<close>) is the border index, and the border score is the node's distance at that
  index. Reading entry 0 of an empty array raises \<open>IndexError\<close>.
\<close>

definition update_node_border_info :: "metric \<Rightarrow> tree_index \<Rightarrow> int \<Rightarrow> nat \<Rightarrow> error + tree_index" where
  "update_node_border_info m idx l n =
     (if m = IP \<or> m = Cos then
        (case get_node idx l n of
           Inl e \<Rightarrow> Inl e
         | Inr nd \<Rightarrow>
             (case argsort (sort (distances nd)) of
                [] \<Rightarrow> Inl IndexError
              | i # _ \<Rightarrow> Inr (set_node idx l n (nd\<lparr>border := (int i, distances nd ! i)\<rparr>))))
      else if m = L2 then
        (case get_node idx l n of
           Inl e \<Rightarrow> Inl e
         | Inr nd \<Rightarrow>
             (case rev (argsort (sort (distances nd))) of
                [] \<Rightarrow> Inl IndexError
              | i # _ \<Rightarrow> Inr (set_node idx l n (nd\<lparr>border := (int i, distances nd ! i)\<rparr>))))
      else Inr idx)"

text \<open>
  \<^verbatim>\<open>ndarray.resize\<close> in place: the array keeps its first \<open>k\<close> entries and is filled
  with zeros when it had fewer. The width of a two-dimensional array is the length of
  its rows.
\<close>

definition resize_to :: "nat \<Rightarrow> 'a \<Rightarrow> 'a list \<Rightarrow> 'a list" where
  "resize_to k z xs = take k xs @ replicate (k - length xs) z"

definition row_width :: "vec list \<Rightarrow> nat" where
  "row_width rows = (case rows of [] \<Rightarrow> 0 | r # _ \<Rightarrow> length r)"

definition resize_node :: "node \<Rightarrow> node" where
  "resize_node nd =
     nd\<lparr>embeddings := resize_to (length (item_ids nd)) (replicate (row_width (embeddings nd)) 0) (embeddings nd),
        distances := resize_to (length (item_ids nd)) 0 (distances nd)\<rparr>"

text \<open>
  The loops of \<^verbatim>\<open>align_node_embeddings_and_distances\<close>: the inner one over the nodes
  \<open>j\<close> of a level, the outer one over the levels \<open>i\<close> with the running
  \<^verbatim>\<open>lvl_range\<close>. Each returns the index as the loop left it, with the exception that
  ended it, if any.
\<close>

fun align_nodes :: "metric \<Rightarrow> tree_index \<Rightarrow> int \<Rightarrow> nat list \<Rightarrow> tree_index \<times> error option" where
  "align_nodes m idx l [] = (idx, None)"
| "align_nodes m idx l (j # js) =
     (case get_node idx l j of
        Inl e \<Rightarrow> (idx, Some e)
      | Inr nd \<Rightarrow>
          (let idx1 = set_node idx l j (resize_node nd) in
           if length (item_ids nd) > 0 then
             (case update_node_border_info m idx1 l j of
                Inl e \<Rightarrow> (idx1, Some e)
              | Inr idx2 \<Rightarrow> align_nodes m idx2 l js)
           else align_nodes m idx1 l js))"

fun align_levels ::
  "metric \<Rightarrow> int \<Rightarrow> int \<Rightarrow> int option \<Rightarrow> tree_index option \<Rightarrow> int \<Rightarrow> int list \<Rightarrow>
     tree_index option \<times> error option" where
  "align_levels m lv ns tc idxo lvl_range [] = (idxo, None)"
| "align_levels m lv ns tc idxo lvl_range (i # is) =
     (case (if lvl_range \<le> 0 then (idxo, None)
            else (case idxo of
                    None \<Rightarrow> (None, Some AttributeError)
                  | Some idx \<Rightarrow>
                      (case align_nodes m idx i [0..<nat lvl_range] of
                         (idx1, r) \<Rightarrow> (Some idx1, r)))) of
        (idxo1, Some e) \<Rightarrow> (idxo1, Some e)
      | (idxo1, None) \<Rightarrow>
          (if i + 1 = lv - 1 then
             (case tc of
                None \<Rightarrow> (idxo1, Some AttributeError)
              | Some c \<Rightarrow> align_levels m lv ns tc idxo1 c is)
           else align_levels m lv ns tc idxo1 (lvl_range * ns) is))"

section \<open>The builder\<close>

text \<open>
  The fields of \<^verbatim>\<open>ECPBuilder\<close>. The constructor sets \<^verbatim>\<open>levels\<close>,
  \<^verbatim>\<open>target_cluster_size\<close> and \<^verbatim>\<open>metric\<close>, and sets the two representative arrays to
  Python's \<^verbatim>\<open>None\<close>. The other attributes do not exist until a method assigns them:
  they are \<open>None\<close> here until then, and reading one that does not exist raises
  \<open>AttributeError\<close>. \<^verbatim>\<open>tree_pq\<close> and \<^verbatim>\<open>item_pq\<close> are created together and
  nowhere else, so they are one field, the pair \<open>queues\<close>. A \<^verbatim>\<open>PriorityQueue\<close> hands
  out its least entry first (tuples compare lexicographically, \<^verbatim>\<open>False\<close> before
  \<^verbatim>\<open>True\<close>); it is modelled as the ascending list of its entries.
\<close>

record builder =
  levels :: int
  target_cluster_size :: int
  metric :: metric
  representative_ids :: "nat list option"
  representative_embeddings :: "vec list option"
  total_clusters :: "int option"
  node_size :: "int option"
  index :: "tree_index option"
  queues :: "((real \<times> bool \<times> int \<times> nat) list \<times> (real \<times> nat) list) option"

definition range_upto :: "int \<Rightarrow> int list" where
  "range_upto k = map int [0..<nat k]"

definition align_node_embeddings_and_distances :: "builder \<Rightarrow> builder \<times> error option" where
  "align_node_embeddings_and_distances b =
     (case node_size b of
        None \<Rightarrow> (b, Some AttributeError)
      | Some ns \<Rightarrow>
          (case align_levels (metric b) (levels b) ns (total_clusters b) (index b) ns (range_upto (levels b)) of
             (idxo, r) \<Rightarrow> (b\<lparr>index := idxo\<rparr>, r)))"

section \<open>Selecting the cluster representatives\<close>

text \<open>
  \<^verbatim>\<open>self.total_clusters ** (1.0 / self.levels)\<close> is a power of floats, whose value is
  whatever the float arithmetic of the machine gives; it need not be the real root (for
  3125 clusters and 5 levels it is a little above 5). The value is a parameter:
  \<open>fpow tc lv\<close> is the float that Python computes for \<^verbatim>\<open>tc ** (1.0 / lv)\<close>. What does
  not depend on the rounding is modelled: Python raises \<open>ZeroDivisionError\<close> for zero
  levels and for a negative power of zero, zero to a positive power is zero, and a
  negative base with an exponent that is no whole number gives a complex number, which
  \<^verbatim>\<open>math.ceil\<close> refuses with \<open>TypeError\<close>. The number of clusters,
  \<^verbatim>\<open>math.ceil(total_items / self.target_cluster_size)\<close>, is the ceiling of the
  quotient: Python rounds the quotient of two integers correctly, so below \<open>2 ^ 53\<close>
  the ceiling of the float is the ceiling of the exact quotient.
\<close>

definition level_root :: "(int \<Rightarrow> int \<Rightarrow> real) \<Rightarrow> int \<Rightarrow> int \<Rightarrow> error + real" where
  "level_root fpow tc lv =
     (if lv = 0 then Inl ZeroDivisionError
      else if tc = 0 then (if lv > 0 then Inr 0 else Inl ZeroDivisionError)
      else if tc > 0 then Inr (fpow tc lv)
      else if lv = 1 then Inr (fpow tc lv)
      else if lv = - 1 then Inr (fpow tc lv)
      else Inl TypeError)"

text \<open>
  Slices: \<^verbatim>\<open>xs[::k]\<close> of a numpy array (every \<open>k\<close>-th entry, from the last one backwards
  for a negative \<open>k\<close>) and \<^verbatim>\<open>xs[:k]\<close> (a negative \<open>k\<close> counts from the end).
\<close>

definition every_nth :: "nat \<Rightarrow> 'a list \<Rightarrow> 'a list" where
  "every_nth k xs = map (\<lambda>i. xs ! (i * k)) [0..<(length xs + k - 1) div k]"

definition slice_step :: "int \<Rightarrow> 'a list \<Rightarrow> 'a list" where
  "slice_step k xs = (if k > 0 then every_nth (nat k) xs else every_nth (nat (- k)) (rev xs))"

definition slice_to :: "int \<Rightarrow> 'a list \<Rightarrow> 'a list" where
  "slice_to k xs = (if k \<ge> 0 then take (nat k) xs else take (length xs - nat (- k)) xs)"

text \<open>
  \<^verbatim>\<open>select_cluster_representatives\<close> on an embeddings file whose dataset
  \<^verbatim>\<open>"embeddings"\<close> holds the rows \<open>f\<close>. The float power \<open>fpow\<close> is a
  parameter, and so are two calls into libraries: \<open>choice n k\<close> is what
  \<^verbatim>\<open>np.random.choice(n, size=k, replace=False)\<close> gives and \<open>gather f ids\<close> what
  reading the dataset at a list of indices gives. The dataset
  refuses a slice with a negative step (\<open>ValueError\<close>). Writing the representatives to
  a file (\<^verbatim>\<open>save_to_file\<close>) and logging change nothing of the builder and are left out.
  The result is the builder as the call left it and the exception or the returned pair.
\<close>

definition select_cluster_representatives ::
  "(int \<Rightarrow> int \<Rightarrow> real) \<Rightarrow> (nat \<Rightarrow> int \<Rightarrow> error + nat list) \<Rightarrow>
     (vec list \<Rightarrow> nat list \<Rightarrow> error + vec list) \<Rightarrow>
     builder \<Rightarrow> vec list \<Rightarrow> string \<Rightarrow> builder \<times> (error + (vec list \<times> nat list))" where
  "select_cluster_representatives fpow choice gather b f opt =
     (let total_items = length f in
      if target_cluster_size b = 0 then (b, Inl ZeroDivisionError)
      else
        (let tc = \<lceil>real total_items / real_of_int (target_cluster_size b)\<rceil>;
             b1 = b\<lparr>total_clusters := Some tc\<rparr>
         in case level_root fpow tc (levels b) of
              Inl e \<Rightarrow> (b1, Inl e)
            | Inr r \<Rightarrow>
                (let b2 = b1\<lparr>node_size := Some \<lceil>r\<rceil>\<rparr> in
                 if opt = ''offset'' then
                   (let all_item_ids = map (\<lambda>i. i mod 2 ^ 32) [0..<total_items];
                        ids = slice_step (target_cluster_size b) all_item_ids;
                        b3 = b2\<lparr>representative_ids := Some ids\<rparr>
                    in if target_cluster_size b < 0 then (b3, Inl ValueError)
                       else
                         (let embs = slice_step (target_cluster_size b) f
                          in (b3\<lparr>representative_embeddings := Some embs\<rparr>, Inr (embs, ids))))
                 else if opt = ''random'' then
                   (case choice total_items tc of
                      Inl e \<Rightarrow> (b2, Inl e)
                    | Inr ids \<Rightarrow>
                        (let b3 = b2\<lparr>representative_ids := Some ids\<rparr>
                         in case gather f ids of
                              Inl e \<Rightarrow> (b3, Inl e)
                            | Inr embs \<Rightarrow> (b3\<lparr>representative_embeddings := Some embs\<rparr>, Inr (embs, ids))))
                 else if opt = ''dissimilar'' then
                   (let u = (if metric b = IP then () else if metric b = L2 then () else if metric b = Cos then () else ())
                    in (b2, Inl NotImplementedError))
                 else (b2, Inl ValueError))))"

section \<open>Building the tree\<close>

text \<open>
  A node as \<^verbatim>\<open>build_tree_h5\<close> allocates it: \<^verbatim>\<open>node_size\<close> rows of zeros, no items,
  border \<^verbatim>\<open>(-1, 1.0)\<close>. \<^verbatim>\<open>np.zeros\<close> refuses a negative size with \<open>ValueError\<close>.
  An assignment to an array entry out of range raises \<open>IndexError\<close>.
\<close>

definition fresh_node :: "nat \<Rightarrow> nat \<Rightarrow> node" where
  "fresh_node ns d =
     \<lparr>embeddings = replicate ns (replicate d 0), item_ids = [], node_ids = [],
      distances = replicate ns 0, border = (- 1, 1)\<rparr>"

definition set_at :: "'a list \<Rightarrow> nat \<Rightarrow> 'a \<Rightarrow> error + 'a list" where
  "set_at xs i v = (if i < length xs then Inr (xs[i := v]) else Inl IndexError)"

text \<open>
  The assignment \<^verbatim>\<open>embeddings[i] = emb\<close> of a row: the vector is as wide as the row, or
  it has one entry, which then fills the row; numpy refuses every other width with
  \<open>ValueError\<close>.
\<close>

definition set_row :: "vec list \<Rightarrow> nat \<Rightarrow> vec \<Rightarrow> error + vec list" where
  "set_row rows i v =
     (if i < length rows then
        (if length v = length (rows ! i) then Inr (rows[i := v])
         else if length v = 1 then Inr (rows[i := replicate (length (rows ! i)) (hd v)])
         else Inl ValueError)
      else Inl IndexError)"

definition get_at :: "'a list \<Rightarrow> nat \<Rightarrow> error + 'a" where
  "get_at xs i = (if i < length xs then Inr (xs ! i) else Inl IndexError)"

text \<open>
  Growing a full node by \<^verbatim>\<open>node_size\<close> rows of zeros
  (\<^verbatim>\<open>np.concatenate\<close>, which refuses rows of another width than the new ones with
  \<open>ValueError\<close>), and the border bookkeeping after an insertion at slot
  \<open>nxt\<close> with score \<open>dist\<close>; the same statements stand in \<^verbatim>\<open>build_tree_h5\<close> and in
  \<^verbatim>\<open>write_cluster_items_to_file\<close>.
\<close>

definition grow_node :: "int \<Rightarrow> nat \<Rightarrow> node \<Rightarrow> error + node" where
  "grow_node ns d nd =
     (if length (item_ids nd) \<ge> length (embeddings nd) then
        (if ns < 0 then Inl ValueError
         else if list_all (\<lambda>r. length r = d) (embeddings nd) then
           Inr (nd\<lparr>embeddings := embeddings nd @ replicate (nat ns) (replicate d 0),
                  distances := distances nd @ replicate (nat ns) 0\<rparr>)
         else Inl ValueError)
      else Inr nd)"

definition border_after :: "metric \<Rightarrow> node \<Rightarrow> nat \<Rightarrow> real \<Rightarrow> node" where
  "border_after m nd nxt dst =
     (if m = IP \<or> m = Cos then
        (if snd (border nd) > dst then nd\<lparr>border := (int nxt, dst)\<rparr> else nd)
      else if m = L2 then
        (if snd (border nd) < dst then nd\<lparr>border := (int nxt, dst)\<rparr> else nd)
      else nd)"

text \<open>
  The allocation loops of \<^verbatim>\<open>build_tree_h5\<close>: level \<open>l\<close> gets
  \<^verbatim>\<open>lvl_range\<close> fresh nodes, where \<^verbatim>\<open>lvl_range\<close> is multiplied by \<^verbatim>\<open>node_size\<close> at every
  level and capped at \<^verbatim>\<open>total_clusters\<close>.
\<close>

fun construct_levels ::
  "int \<Rightarrow> int option \<Rightarrow> nat \<Rightarrow> tree_index \<Rightarrow> int \<Rightarrow> int list \<Rightarrow> tree_index \<times> error option" where
  "construct_levels ns tco d idx lvl_range [] = (idx, None)"
| "construct_levels ns tco d idx lvl_range (l # ls) =
     (case tco of
        None \<Rightarrow> (idx, Some AttributeError)
      | Some tc \<Rightarrow>
          (let r1 = lvl_range * ns;
               r2 = (if r1 > tc then tc else r1)
           in if r2 > 0 \<and> ns < 0 then (idx, Some ValueError)
              else construct_levels ns tco d
                     (fold (\<lambda>i ix. set_node ix l i (fresh_node (nat ns) d)) [0..<nat r2] idx) r2 ls))"

text \<open>
  The insertion of one representative into level \<open>l\<close>, at node \<open>n\<close>: the body of
  the branch \<^verbatim>\<open>curr_lvl == l\<close>. \<open>t0\<close> and \<open>dists\<close> are \<^verbatim>\<open>top[0]\<close> and
  \<^verbatim>\<open>distances\<close> of the last ranking. The statements mutate the node one after the
  other, so an exception leaves what the earlier ones did.
\<close>

definition append_representative ::
  "metric \<Rightarrow> nat list \<Rightarrow> int \<Rightarrow> nat \<Rightarrow> tree_index \<Rightarrow> int \<Rightarrow> nat \<Rightarrow> nat \<Rightarrow> vec \<Rightarrow> nat \<Rightarrow> real list \<Rightarrow>
     tree_index \<times> error option" where
  "append_representative m ids ns d idx l n cl_idx emb t0 dists =
     (case get_node idx l n of
        Inl e \<Rightarrow> (idx, Some e)
      | Inr nd \<Rightarrow>
          (let nxt = length (item_ids nd) in
           case grow_node ns d nd of
             Inl e \<Rightarrow> (idx, Some e)
           | Inr nd1 \<Rightarrow>
               (case set_row (embeddings nd1) nxt emb of
                  Inl e \<Rightarrow> (set_node idx l n nd1, Some e)
                | Inr es \<Rightarrow>
                    (let nd2 = nd1\<lparr>embeddings := es\<rparr> in
                     case get_at ids cl_idx of
                       Inl e \<Rightarrow> (set_node idx l n nd2, Some e)
                     | Inr rid \<Rightarrow>
                         (let nd3 = nd2\<lparr>item_ids := item_ids nd2 @ [rid],
                                         node_ids := node_ids nd2 @ [cl_idx]\<rparr> in
                          case get_at dists t0 of
                            Inl e \<Rightarrow> (set_node idx l n nd3, Some e)
                          | Inr dst \<Rightarrow>
                              (case set_at (distances nd3) nxt dst of
                                 Inl e \<Rightarrow> (set_node idx l n nd3, Some e)
                               | Inr ds \<Rightarrow>
                                   (set_node idx l n (border_after m (nd3\<lparr>distances := ds\<rparr>) nxt dst),
                                    None)))))))"

text \<open>
  The loop \<^verbatim>\<open>while True\<close> of the descent. \<^verbatim>\<open>curr_lvl\<close> starts at 0 and the loop
  ends when it reaches \<open>l\<close>, which is never negative; the recursion is on the number
  \<open>k\<close> of levels still to go down, so \<^verbatim>\<open>curr_lvl\<close> is \<open>l - k\<close>. A ranking that
  returned \<^verbatim>\<open>None\<close> cannot be unpacked (\<open>TypeError\<close>).
\<close>

fun descend ::
  "metric \<Rightarrow> nat list \<Rightarrow> int \<Rightarrow> nat \<Rightarrow> tree_index \<Rightarrow> int \<Rightarrow> nat \<Rightarrow> vec \<Rightarrow> nat \<Rightarrow> nat \<Rightarrow> nat \<Rightarrow> real list \<Rightarrow>
     tree_index \<times> error option" where
  "descend m ids ns d idx l cl_idx emb 0 n t0 dists =
     append_representative m ids ns d idx l n cl_idx emb t0 dists"
| "descend m ids ns d idx l cl_idx emb (Suc k) n t0 dists =
     (case distance_level_node m idx emb (l - int (Suc k)) n of
        Inl e \<Rightarrow> (idx, Some e)
      | Inr None \<Rightarrow> (idx, Some TypeError)
      | Inr (Some (tp, distances1)) \<Rightarrow>
          (case tp of
             [] \<Rightarrow> (idx, Some IndexError)
           | t1 # _ \<Rightarrow>
               (case get_node idx (l - int (Suc k)) n of
                  Inl e \<Rightarrow> (idx, Some e)
                | Inr nd \<Rightarrow>
                    (case get_at (node_ids nd) t1 of
                       Inl e \<Rightarrow> (idx, Some e)
                     | Inr n1 \<Rightarrow> descend m ids ns d idx l cl_idx emb k n1 t1 distances1))))"

text \<open>
  The loop over the representatives of one pass (\<^verbatim>\<open>enumerate(embeddings)\<close>) and the
  loop over the passes \<open>l\<close> of the top-down insertion.
\<close>

fun insert_representatives ::
  "metric \<Rightarrow> nat list \<Rightarrow> int \<Rightarrow> nat \<Rightarrow> tree_index \<Rightarrow> int \<Rightarrow> (nat \<times> vec) list \<Rightarrow> tree_index \<times> error option" where
  "insert_representatives m ids ns d idx l [] = (idx, None)"
| "insert_representatives m ids ns d idx l ((cl_idx, emb) # rest) =
     (case distance_root_node m idx emb of
        Inl e \<Rightarrow> (idx, Some e)
      | Inr (tp, dists) \<Rightarrow>
          (case tp of
             [] \<Rightarrow> (idx, Some IndexError)
           | t0 # _ \<Rightarrow>
               (case descend m ids ns d idx l cl_idx emb (nat l) t0 t0 dists of
                  (idx1, Some e) \<Rightarrow> (idx1, Some e)
                | (idx1, None) \<Rightarrow> insert_representatives m ids ns d idx1 l rest)))"

fun insert_levels ::
  "metric \<Rightarrow> nat list \<Rightarrow> vec list \<Rightarrow> int \<Rightarrow> int option \<Rightarrow> tree_index \<Rightarrow> int \<Rightarrow> int list \<Rightarrow>
     tree_index \<times> error option" where
  "insert_levels m ids reps ns tco idx lvl_range [] = (idx, None)"
| "insert_levels m ids reps ns tco idx lvl_range (l # ls) =
     (case tco of
        None \<Rightarrow> (idx, Some AttributeError)
      | Some tc \<Rightarrow>
          (let r1 = lvl_range * ns;
               r2 = (if r1 > tc then tc else r1);
               embs = slice_to r2 reps
           in case insert_representatives m ids ns (row_width reps) idx l (enumerate 0 embs) of
                (idx1, Some e) \<Rightarrow> (idx1, Some e)
              | (idx1, None) \<Rightarrow> insert_levels m ids reps ns tco idx1 r2 ls))"

text \<open>
  \<^verbatim>\<open>build_tree_h5\<close>. The check of the representatives is its first statement; the
  index is assigned after it. Writing the tree to a file is left out.
\<close>

definition build_tree_h5 :: "builder \<Rightarrow> builder \<times> error option" where
  "build_tree_h5 b =
     (if representative_embeddings b = None \<or> representative_ids b = None then (b, Some ValueError)
      else
        (let reps = the (representative_embeddings b);
             ids = the (representative_ids b);
             idx0 = \<lparr>root_item_ids = None, root_embeddings = None, lvls = (\<lambda>k. None)\<rparr>
         in case node_size b of
              None \<Rightarrow> (b\<lparr>index := Some idx0\<rparr>, Some AttributeError)
            | Some ns \<Rightarrow>
                (let idx1 = idx0\<lparr>root_item_ids := Some (slice_to ns ids),
                                  root_embeddings := Some (slice_to ns reps)\<rparr>
                 in case construct_levels ns (total_clusters b) (row_width reps) idx1 1
                           (range_upto (levels b)) of
                      (idx2, Some e) \<Rightarrow> (b\<lparr>index := Some idx2\<rparr>, Some e)
                    | (idx2, None) \<Rightarrow>
                        (case insert_levels (metric b) ids reps ns (total_clusters b) idx2 ns
                                (range_upto (levels b - 1)) of
                           (idx3, Some e) \<Rightarrow> (b\<lparr>index := Some idx3\<rparr>, Some e)
                         | (idx3, None) \<Rightarrow>
                             align_node_embeddings_and_distances (b\<lparr>index := Some idx3\<rparr>)))))"

section \<open>The leaf store and the concurrent assignment\<close>

text \<open>
  The body of the loop \<^verbatim>\<open>for item, dist, emb in v\<close> of
  \<^verbatim>\<open>write_cluster_items_to_file\<close>: one triple is appended to node \<open>(l, n)\<close>. The
  node grows by \<^verbatim>\<open>self.node_size\<close> rows when it is full; the attributes are read only
  then.
\<close>

definition append_item ::
  "metric \<Rightarrow> int option \<Rightarrow> vec list option \<Rightarrow> tree_index \<Rightarrow> int \<Rightarrow> nat \<Rightarrow> nat \<times> real \<times> vec \<Rightarrow>
     tree_index \<times> error option" where
  "append_item m nso reps idx l n triple =
     (case triple of
        (item, dst, emb) \<Rightarrow>
          (case get_node idx l n of
             Inl e \<Rightarrow> (idx, Some e)
           | Inr nd \<Rightarrow>
               (let nxt = length (item_ids nd) in
                case (if nxt \<ge> length (embeddings nd) then
                        (case nso of
                           None \<Rightarrow> Inl AttributeError
                         | Some ns \<Rightarrow>
                             (case reps of
                                None \<Rightarrow> Inl AttributeError
                              | Some r \<Rightarrow> grow_node ns (row_width r) nd))
                      else Inr nd) of
                  Inl e \<Rightarrow> (idx, Some e)
                | Inr nd1 \<Rightarrow>
                    (case set_row (embeddings nd1) nxt emb of
                       Inl e \<Rightarrow> (set_node idx l n nd1, Some e)
                     | Inr es \<Rightarrow>
                         (let nd2 = nd1\<lparr>embeddings := es, item_ids := item_ids nd1 @ [item]\<rparr> in
                          case set_at (distances nd2) nxt dst of
                            Inl e \<Rightarrow> (set_node idx l n nd2, Some e)
                          | Inr ds \<Rightarrow>
                              (set_node idx l n (border_after m (nd2\<lparr>distances := ds\<rparr>) nxt dst),
                               None))))))"

fun append_items ::
  "metric \<Rightarrow> int option \<Rightarrow> vec list option \<Rightarrow> tree_index \<Rightarrow> int \<Rightarrow> nat \<Rightarrow> (nat \<times> real \<times> vec) list \<Rightarrow>
     tree_index \<times> error option" where
  "append_items m nso reps idx l n [] = (idx, None)"
| "append_items m nso reps idx l n (triple # rest) =
     (case append_item m nso reps idx l n triple of
        (idx1, Some e) \<Rightarrow> (idx1, Some e)
      | (idx1, None) \<Rightarrow> append_items m nso reps idx1 l n rest)"

text \<open>
  The loop over \<^verbatim>\<open>clusters.items()\<close>: the triples of a cluster are appended to its
  leaf, then \<^verbatim>\<open>align_specific_node\<close> trims the arrays of the leaf to the number of its
  items. The dictionary is the list of its entries in insertion order.
\<close>

fun write_clusters ::
  "metric \<Rightarrow> int option \<Rightarrow> vec list option \<Rightarrow> tree_index \<Rightarrow> int \<Rightarrow> (nat \<times> (nat \<times> real \<times> vec) list) list \<Rightarrow>
     tree_index \<times> error option" where
  "write_clusters m nso reps idx l [] = (idx, None)"
| "write_clusters m nso reps idx l ((n, v) # rest) =
     (case append_items m nso reps idx l n v of
        (idx1, Some e) \<Rightarrow> (idx1, Some e)
      | (idx1, None) \<Rightarrow>
          (case get_node idx1 l n of
             Inl e \<Rightarrow> (idx1, Some e)
           | Inr nd \<Rightarrow> write_clusters m nso reps (set_node idx1 l n (resize_node nd)) l rest))"

text \<open>
  \<^verbatim>\<open>write_cluster_items_to_file\<close>, the part that changes the index in memory. The leaf
  level is \<^verbatim>\<open>levels - 1\<close>. Copying the leaves to the file is left out.
\<close>

definition write_cluster_items_to_file ::
  "builder \<Rightarrow> (nat \<times> (nat \<times> real \<times> vec) list) list \<Rightarrow> builder \<times> error option" where
  "write_cluster_items_to_file b clusters =
     (case clusters of
        [] \<Rightarrow> (b, None)
      | c # cs \<Rightarrow>
          (case index b of
             None \<Rightarrow> (b, Some AttributeError)
           | Some idx \<Rightarrow>
               (case write_clusters (metric b) (node_size b) (representative_embeddings b) idx
                       (levels b - 1) clusters of
                  (idx1, r) \<Rightarrow> (b\<lparr>index := Some idx1\<rparr>, r))))"

text \<open>
  The number of processes \<^verbatim>\<open>add_items_concurrent\<close> asks the pool for, from the
  requested \<^verbatim>\<open>workers\<close> and the value of \<^verbatim>\<open>cpu_count()\<close>.
\<close>

definition pool_processes :: "int \<Rightarrow> int \<Rightarrow> int" where
  "pool_processes workers cpu = (if workers > cpu then cpu - 1 else workers)"

text \<open>
  \<^verbatim>\<open>Pool(processes=processes)\<close>: the pool of the library is created with that number of
  processes, and its constructor refuses a number below 1 with \<open>ValueError\<close>. The
  result is the exception or the number of processes of the pool.
\<close>

definition create_pool :: "int \<Rightarrow> int \<Rightarrow> error + int" where
  "create_pool workers cpu =
     (let processes = pool_processes workers cpu
      in if processes < 1 then Inl ValueError else Inr processes)"

text \<open>
  \<^verbatim>\<open>range(start, stop, step)\<close> for a step that is not zero, and \<^verbatim>\<open>int(x / 20)\<close>, which
  rounds towards zero.
\<close>

definition range_step :: "int \<Rightarrow> int \<Rightarrow> int \<Rightarrow> int list" where
  "range_step start stop step =
     (if step > 0 then map (\<lambda>i. start + int i * step) [0..<nat ((stop - start + step - 1) div step)]
      else map (\<lambda>i. start + int i * step) [0..<nat ((start - stop - step - 1) div (- step))])"

definition clst_chunks :: "int \<Rightarrow> int" where
  "clst_chunks tc = (if tc \<ge> 0 then tc div 20 else - ((- tc) div 20))"

text \<open>
  The merge phase builds the item list of cluster \<open>n\<close> from the partial node maps.
  \<^verbatim>\<open>cluster_items\<close> starts empty and the test before every extension is
  \<^verbatim>\<open>node in cluster_items\<close>: the name of the node, a string, is compared with each
  triple of the list, and a string never equals a tuple. Inside the branch,
  \<^verbatim>\<open>pmap[node]\<close> raises \<open>KeyError\<close> for a missing key, and unpacking an element of
  \<^verbatim>\<open>enumerate(pmap[node])\<close>, a pair, into three names raises \<open>ValueError\<close>.
\<close>

definition name_in_items :: "nat \<Rightarrow> (nat \<times> real \<times> vec) list \<Rightarrow> bool" where
  "name_in_items n items = list_ex (\<lambda>triple. False) items"

fun cluster_items ::
  "nat \<Rightarrow> (nat \<Rightarrow> (nat \<times> real) list option) list \<Rightarrow> (nat \<times> real \<times> vec) list \<Rightarrow>
     error + (nat \<times> real \<times> vec) list" where
  "cluster_items n [] items = Inr items"
| "cluster_items n (pmap # rest) items =
     (if name_in_items n items then
        (case pmap n of
           None \<Rightarrow> Inl KeyError
         | Some entries \<Rightarrow>
             (case entries of
                [] \<Rightarrow> cluster_items n rest items
              | en # ens \<Rightarrow> Inl ValueError))
      else cluster_items n rest items)"

fun prepare_chunk ::
  "(nat \<Rightarrow> (nat \<times> real) list option) list \<Rightarrow> nat list \<Rightarrow> error + (nat \<times> (nat \<times> real \<times> vec) list) list" where
  "prepare_chunk pmaps [] = Inr []"
| "prepare_chunk pmaps (n # ns) =
     (case cluster_items n pmaps [] of
        Inl e \<Rightarrow> Inl e
      | Inr items \<Rightarrow>
          (case prepare_chunk pmaps ns of
             Inl e \<Rightarrow> Inl e
           | Inr cl \<Rightarrow> Inr ((n, items) # cl)))"

text \<open>
  The loop over the slices of clusters: slice \<open>start_idx\<close> holds the clusters
  \<^verbatim>\<open>range(start_idx, end_idx)\<close>, which is empty whenever \<open>start_idx\<close> is negative.
\<close>

fun merge_slices ::
  "builder \<Rightarrow> int \<Rightarrow> int \<Rightarrow> (nat \<Rightarrow> (nat \<times> real) list option) list \<Rightarrow> int list \<Rightarrow> builder \<times> error option" where
  "merge_slices b tc chunks pmaps [] = (b, None)"
| "merge_slices b tc chunks pmaps (start_idx # rest) =
     (let end_idx = min (start_idx + chunks) tc in
      case prepare_chunk pmaps (map nat (range_step start_idx end_idx 1)) of
        Inl e \<Rightarrow> (b, Some e)
      | Inr clusters \<Rightarrow>
          (case write_cluster_items_to_file b clusters of
             (b1, Some e) \<Rightarrow> (b1, Some e)
           | (b1, None) \<Rightarrow> merge_slices b1 tc chunks pmaps rest))"

text \<open>
  \<^verbatim>\<open>add_items_concurrent\<close> after the pool was created and has run: \<open>pmaps\<close> are the partial node maps
  the workers returned, one per chunk, in the order of the chunks. \<open>save\<close> says that
  \<^verbatim>\<open>save_to_file\<close> is not the empty string. \<^verbatim>\<open>range\<close> refuses a step of zero with
  \<open>ValueError\<close>.
\<close>

definition add_items_concurrent ::
  "builder \<Rightarrow> (nat \<Rightarrow> (nat \<times> real) list option) list \<Rightarrow> bool \<Rightarrow> builder \<times> error option" where
  "add_items_concurrent b pmaps save =
     (if save then
        (case total_clusters b of
           None \<Rightarrow> (b, Some AttributeError)
         | Some tc \<Rightarrow>
             (if clst_chunks tc = 0 then (b, Some ValueError)
              else merge_slices b tc (clst_chunks tc) pmaps (range_step 0 tc (clst_chunks tc))))
      else (b, None))"

section \<open>Searching the tree\<close>

text \<open>
  The state of the loop of \<^verbatim>\<open>search_tree\<close>: the counter \<^verbatim>\<open>leaf_cnt\<close>, the two
  queues, and the local variables \<^verbatim>\<open>lvl\<close>, \<^verbatim>\<open>node\<close> and \<^verbatim>\<open>radius\<close>. The three are
  assigned only in the branch of a leaf, together, and are unbound (\<open>None\<close>) before
  the first leaf of the call.
\<close>

record search_state =
  leaf_cnt :: int
  frontier :: "(real \<times> bool \<times> int \<times> nat) list"
  results :: "(real \<times> nat) list"
  leaf_locals :: "(int \<times> nat \<times> real) option"

text \<open>
  The loop \<^verbatim>\<open>for t in top\<close> of a leaf: every item of the leaf goes into the results
  with its score.
\<close>

fun push_items :: "real list \<Rightarrow> nat list \<Rightarrow> (real \<times> nat) list \<Rightarrow> nat list \<Rightarrow> (real \<times> nat) list \<times> error option" where
  "push_items dists ids res [] = (res, None)"
| "push_items dists ids res (t # ts) =
     (case get_at dists t of
        Inl e \<Rightarrow> (res, Some e)
      | Inr d \<Rightarrow>
          (case get_at ids t of
             Inl e \<Rightarrow> (res, Some e)
           | Inr item \<Rightarrow> push_items dists ids (insort (d, item) res) ts))"

text \<open>
  The loop \<^verbatim>\<open>for t in top\<close> of a node that is no leaf: every child goes into the
  frontier at level \<open>l + 1\<close>, with its score minus \<^verbatim>\<open>radius\<close> for \<^verbatim>\<open>L2\<close> and plus
  \<^verbatim>\<open>radius\<close> otherwise, flagged as a leaf when \<open>l + 1\<close> is \<^verbatim>\<open>levels - 1\<close>.
\<close>

fun push_children ::
  "metric \<Rightarrow> int \<Rightarrow> real \<Rightarrow> int \<Rightarrow> real list \<Rightarrow> nat list \<Rightarrow> (real \<times> bool \<times> int \<times> nat) list \<Rightarrow> nat list \<Rightarrow>
     (real \<times> bool \<times> int \<times> nat) list \<times> error option" where
  "push_children m lv radius l dists nids fr [] = (fr, None)"
| "push_children m lv radius l dists nids fr (t # ts) =
     (case get_at dists t of
        Inl e \<Rightarrow> (fr, Some e)
      | Inr d \<Rightarrow>
          (let dst = (if m = L2 then d - radius else d + radius) in
           case get_at nids t of
             Inl e \<Rightarrow> (fr, Some e)
           | Inr child \<Rightarrow>
               (if l + 1 = lv - 1
                then push_children m lv radius l dists nids (insort (dst, True, l + 1, child) fr) ts
                else push_children m lv radius l dists nids (insort (dst, False, l + 1, child) fr) ts)))"

text \<open>
  The body of the loop for the entry \<open>(sc, is_leaf, l, n)\<close> that
  \<^verbatim>\<open>self.tree_pq.get()\<close> handed out; \<open>st\<close> is the state without that entry. The
  branch of a node that is no leaf ranks the children of \<^verbatim>\<open>lvl\<close> and \<^verbatim>\<open>node\<close> and
  uses \<^verbatim>\<open>radius\<close>: the local variables, which only the branch of a leaf assigns. Reading
  them while they are unbound raises \<open>UnboundLocalError\<close>.
\<close>

definition expand ::
  "metric \<Rightarrow> int \<Rightarrow> tree_index \<Rightarrow> vec \<Rightarrow> search_state \<Rightarrow> real \<times> bool \<times> int \<times> nat \<Rightarrow>
     search_state \<times> error option" where
  "expand m lv idx q st entry =
     (case entry of
        (sc, is_leaf, l, n) \<Rightarrow>
          (if is_leaf then
             (case get_node idx l n of
                Inl e \<Rightarrow> (st, Some e)
              | Inr nd \<Rightarrow>
                  (let st1 = st\<lparr>leaf_locals := Some (l, n, snd (border nd))\<rparr> in
                   case distance_level_node m idx q l n of
                     Inl e \<Rightarrow> (st1, Some e)
                   | Inr None \<Rightarrow> (st1, Some TypeError)
                   | Inr (Some (tp, dists)) \<Rightarrow>
                       (case push_items dists (item_ids nd) (results st1) tp of
                          (res, Some e) \<Rightarrow> (st1\<lparr>results := res\<rparr>, Some e)
                        | (res, None) \<Rightarrow>
                            (st1\<lparr>results := res, leaf_cnt := leaf_cnt st1 + 1\<rparr>, None))))
           else
             (case leaf_locals st of
                None \<Rightarrow> (st, Some UnboundLocalError)
              | Some (lvl, node, radius) \<Rightarrow>
                  (case distance_level_node m idx q lvl node of
                     Inl e \<Rightarrow> (st, Some e)
                   | Inr None \<Rightarrow> (st, Some TypeError)
                   | Inr (Some (tp, dists)) \<Rightarrow>
                       (case get_node idx lvl node of
                          Inl e \<Rightarrow> (st, Some e)
                        | Inr nd \<Rightarrow>
                            (case push_children m lv radius l dists (node_ids nd) (frontier st) tp of
                               (fr, r) \<Rightarrow> (st\<lparr>frontier := fr\<rparr>, r)))))))"

text \<open>
  The loop \<^verbatim>\<open>while leaf_cnt != search_exp and not self.tree_pq.empty()\<close>. Nothing bounds
  the number of its rounds, so the result is \<open>None\<close> when it runs forever.
\<close>

partial_function (option) search_loop ::
  "metric \<Rightarrow> int \<Rightarrow> tree_index \<Rightarrow> vec \<Rightarrow> int \<Rightarrow> search_state \<Rightarrow> (search_state \<times> error option) option" where
  "search_loop m lv idx q search_exp st =
     (if leaf_cnt st \<noteq> search_exp \<and> frontier st \<noteq> [] then
        (case expand m lv idx q (st\<lparr>frontier := tl (frontier st)\<rparr>) (hd (frontier st)) of
           (st1, r) \<Rightarrow>
             (case r of
                Some e \<Rightarrow> Some (st1, Some e)
              | None \<Rightarrow> search_loop m lv idx q search_exp st1))
      else Some (st, None))"

text \<open>
  The last statement: the list comprehension runs \<open>k\<close> times and takes the least
  entry of the results each time they are not empty.
\<close>

fun drain :: "nat \<Rightarrow> (real \<times> nat) list \<Rightarrow> (real \<times> nat) list \<times> (real \<times> nat) list" where
  "drain 0 res = ([], res)"
| "drain (Suc k) res =
     (case res of
        [] \<Rightarrow> drain k res
      | x # rest \<Rightarrow> (case drain k rest of (out, res1) \<Rightarrow> (x # out, res1)))"

text \<open>
  \<^verbatim>\<open>search_tree\<close>. With \<^verbatim>\<open>restart\<close> the two queues are created empty. The children of
  the root go into the frontier at level 0, none flagged as a leaf; then the loop runs
  and the results are drained. When the queues were never created, the first statement
  that reads one of them raises \<open>AttributeError\<close>. The result is \<open>None\<close> when the
  loop runs forever, and else the builder as the call left it with the exception or the
  returned list.
\<close>

fun push_root :: "real list \<Rightarrow> (real \<times> bool \<times> int \<times> nat) list \<Rightarrow> nat list \<Rightarrow> (real \<times> bool \<times> int \<times> nat) list \<times> error option" where
  "push_root dists fr [] = (fr, None)"
| "push_root dists fr (t # ts) =
     (case get_at dists t of
        Inl e \<Rightarrow> (fr, Some e)
      | Inr d \<Rightarrow> push_root dists (insort (d, False, 0, t) fr) ts)"

definition search_tree ::
  "builder \<Rightarrow> vec \<Rightarrow> int \<Rightarrow> int \<Rightarrow> bool \<Rightarrow> (builder \<times> (error + (real \<times> nat) list)) option" where
  "search_tree b q search_exp k restart =
     (let b1 = (if restart then b\<lparr>queues := Some ([], [])\<rparr> else b) in
      case (case index b1 of
              None \<Rightarrow> (if metric b1 = OtherMetric then Inl UnboundLocalError else Inl AttributeError)
            | Some idx \<Rightarrow> distance_root_node (metric b1) idx q) of
        Inl e \<Rightarrow> Some (b1, Inl e)
      | Inr (tp, dists) \<Rightarrow>
          (case queues b1 of
             None \<Rightarrow>
               (if tp \<noteq> [] then Some (b1, Inl AttributeError)
                else if 0 \<noteq> search_exp then Some (b1, Inl AttributeError)
                else if k > 0 then Some (b1, Inl AttributeError)
                else Some (b1, Inr []))
           | Some (fr0, res0) \<Rightarrow>
               (case push_root dists fr0 tp of
                  (fr1, Some e) \<Rightarrow> Some (b1\<lparr>queues := Some (fr1, res0)\<rparr>, Inl e)
                | (fr1, None) \<Rightarrow>
                    (case search_loop (metric b1) (levels b1) (the (index b1)) q search_exp
                            \<lparr>leaf_cnt = 0, frontier = fr1, results = res0, leaf_locals = None\<rparr> of
                       None \<Rightarrow> None
                     | Some (st, Some e) \<Rightarrow>
                         Some (b1\<lparr>queues := Some (frontier st, results st)\<rparr>, Inl e)
                     | Some (st, None) \<Rightarrow>
                         (case drain (nat k) (results st) of
                            (out, res1) \<Rightarrow>
                              Some (b1\<lparr>queues := Some (frontier st, res1)\<rparr>, Inr out))))))"

section \<open>Observations and example inputs\<close>

text \<open>
  The item list of leaf \<open>(l, n)\<close>, as the coverage of an assignment reads it:
  \<open>None\<close> when the index has no such node.
\<close>

definition leaf_items :: "tree_index \<Rightarrow> int \<Rightarrow> nat \<Rightarrow> nat list option" where
  "leaf_items idx l n = map_option item_ids (lvls idx (l, n))"

text \<open>
  The queues as the calls of \<^verbatim>\<open>search_tree\<close> leave them: never created, or with
  empty results and a frontier in which no entry is flagged as a leaf. The constructor
  does not create the queues, and \<^verbatim>\<open>search_tree\<close> is the only method that reads or
  writes them.
\<close>

definition no_leaf_pending :: "builder \<Rightarrow> bool" where
  "no_leaf_pending b =
     (case queues b of
        None \<Rightarrow> True
      | Some (fr, res) \<Rightarrow> res = [] \<and> list_all (\<lambda>entry. fst (snd entry) = False) fr)"

text \<open>
  A query is well shaped for a matrix when it has entries and every row is as wide as
  it.
\<close>

definition well_shaped :: "vec list \<Rightarrow> vec \<Rightarrow> bool" where
  "well_shaped refs q = (q \<noteq> [] \<and> same_width refs q)"

text \<open>
  A node with three items and the distances \<open>[3, 1, 4]\<close>, an index of one level that
  holds it as node 0, and a builder of that index for a given metric.
\<close>

definition example_node :: node where
  "example_node =
     \<lparr>embeddings = [[1, 0], [0, 1], [1, 1]], item_ids = [10, 11, 12], node_ids = [],
      distances = [3, 1, 4], border = (- 1, 1)\<rparr>"

definition example_index :: tree_index where
  "example_index =
     \<lparr>root_item_ids = Some [0], root_embeddings = Some [[1, 0]],
      lvls = (\<lambda>k. None)((0, 0) \<mapsto> example_node)\<rparr>"

definition example_builder :: "metric \<Rightarrow> builder" where
  "example_builder m =
     \<lparr>levels = 1, target_cluster_size = 3, metric = m, representative_ids = Some [0],
      representative_embeddings = Some [[1, 0]], total_clusters = Some 1, node_size = Some 1,
      index = Some example_index, queues = None\<rparr>"

text \<open>A builder as the constructor leaves it, for one level and clusters of two items.\<close>

definition new_builder :: builder where
  "new_builder =
     \<lparr>levels = 1, target_cluster_size = 2, metric = L2, representative_ids = None,
      representative_embeddings = None, total_clusters = None, node_size = None,
      index = None, queues = None\<rparr>"

text \<open>
  A float power that is the real root except at 3125 clusters and 5 levels, where it
  is the float next above 5, as Python computes it.
\<close>

definition example_pow :: "int \<Rightarrow> int \<Rightarrow> real" where
  "example_pow tc lv =
     (if tc = 3125 \<and> lv = 5 then 5 + 1 / 2 ^ 50 else real_of_int tc powr (1 / real_of_int lv))"

text \<open>
  A sample that \<^verbatim>\<open>np.random.choice\<close> may draw, the first \<open>k\<close> indices, and a read
  of the dataset at a list of indices.
\<close>

definition first_choice :: "nat \<Rightarrow> int \<Rightarrow> error + nat list" where
  "first_choice n k = (if k < 0 \<or> int n < k then Inl ValueError else Inr [0..<nat k])"

definition read_rows :: "vec list \<Rightarrow> nat list \<Rightarrow> error + vec list" where
  "read_rows f ids = (if list_all (\<lambda>i. i < length f) ids then Inr (map (\<lambda>i. f ! i) ids) else Inl IndexError)"

text \<open>
  A built tree of one level with twenty clusters, whose leaves are still empty, and the
  partial node map of a worker that assigned the items 0 and 1 to cluster 19.
\<close>

definition leaf_store_builder :: builder where
  "leaf_store_builder =
     \<lparr>levels = 1, target_cluster_size = 1, metric = L2,
      representative_ids = Some [0..<20],
      representative_embeddings = Some (map (\<lambda>i. [real i]) [0..<20]),
      total_clusters = Some 20, node_size = Some 20,
      index = Some \<lparr>root_item_ids = Some [0..<20],
                     root_embeddings = Some (map (\<lambda>i. [real i]) [0..<20]),
                     lvls = (\<lambda>(l, n). if l = 0 \<and> n < 20 then Some (fresh_node 20 1) else None)\<rparr>,
      queues = None\<rparr>"

definition worker_map :: "nat \<Rightarrow> (nat \<times> real) list option" where
  "worker_map n = (if n = 19 then Some [(0, 1 / 2), (1, 1 / 4)] else None)"

section \<open>Ranking\<close>

lemma set_argsort: "set (argsort xs) = {0..<length xs}"
  by (simp add: argsort_def)

lemma distinct_argsort: "distinct (argsort xs)"
  by (simp add: argsort_def)

lemma length_argsort: "length (argsort xs) = length xs"
  by (simp add: argsort_def)

lemma sorted_argsort: "sorted (map (\<lambda>i. xs ! i) (argsort xs))"
  by (simp add: argsort_def)

lemma argsort_of_sorted: "sorted xs \<Longrightarrow> argsort xs = [0..<length xs]"
  unfolding argsort_def by (rule sort_key_id_if_sorted) (simp add: map_nth)

text \<open>
  The ranking against the root does what the contract of a ranking says, for each of
  the three metrics: on a root with rows and a well-shaped query it returns a pair; the
  scores of a pair are the raw values, in the order of the rows, and the ordering holds
  every row index once, ascending by score for \<open>L2\<close> and descending for \<open>IP\<close>
  and \<open>Cos\<close>.
\<close>

lemma broadcast_sub_same: "length r = length emb \<Longrightarrow> broadcast_sub r emb = Some (vsub r emb)"
  by (simp add: broadcast_sub_def)

lemma sub_rows_same:
  "same_width refs emb \<Longrightarrow> sub_rows refs emb = Inr (map (\<lambda>r. vsub r emb) refs)"
  by (auto simp add: sub_rows_def same_width_def list_all_iff broadcast_sub_same)

lemma distance_root_node_returns:
  assumes "m = IP \<or> m = L2 \<or> m = Cos" "root_embeddings idx = Some refs"
    and "refs \<noteq> []" "well_shaped refs emb"
  shows "\<exists>tp dists. distance_root_node m idx emb = Inr (tp, dists)"
  using assms
  by (auto simp add: distance_root_node_def Let_def well_shaped_def dot_rows_def cos_rows_def
      sub_rows_same)

lemma distance_root_node_shape:
  assumes "root_embeddings idx = Some refs" "distance_root_node m idx emb = Inr (tp, dists)"
  shows "length dists = length refs \<and> set tp = {0..<length refs} \<and> distinct tp
     \<and> length tp = length refs"
  using assms
  by (cases m)
     (auto simp add: distance_root_node_def Let_def dot_rows_def cos_rows_def sub_rows_def
       set_argsort distinct_argsort length_argsort split: if_splits)

lemma distance_root_node_scores:
  assumes "root_embeddings idx = Some refs" "distance_root_node m idx emb = Inr (tp, dists)"
    and "same_width refs emb"
  shows "dists = map (\<lambda>r. if m = IP then dot r emb else if m = L2 then l2norm (vsub r emb)
                          else cosine_similarity r emb) refs"
  using assms
  by (cases m)
     (auto simp add: distance_root_node_def Let_def dot_rows_def cos_rows_def sub_rows_same
       split: if_splits)

lemma distance_root_node_best_first:
  assumes "distance_root_node m idx emb = Inr (tp, dists)"
  shows "if m = L2 then sorted (map (\<lambda>i. dists ! i) tp) else sorted (rev (map (\<lambda>i. dists ! i) tp))"
proof (cases "root_embeddings idx")
  case None
  with assms show ?thesis by (cases m) (simp_all add: distance_root_node_def)
next
  case (Some refs)
  with assms show ?thesis
    by (cases m)
       (auto simp add: distance_root_node_def Let_def sorted_argsort rev_map [symmetric]
         split: sum.splits)
qed

lemma distance_level_node_no_pair:
  "distance_level_node IP idx emb l n \<noteq> Inr (Some r) \<and> distance_level_node L2 idx emb l n \<noteq> Inr (Some r)"
  by (simp add: distance_level_node_def Let_def split: sum.splits)

text \<open>
  Claim C1. For each of the metrics L2, IP and cos, both ranking operations return the
  pair of an ordering and the raw scores. \<^verbatim>\<open>distance_level_node\<close> does not: with the
  metric IP (and with L2) it ranks the rows of the node and then returns \<^verbatim>\<open>None\<close>,
  here for the query \<open>[1, 0]\<close> against node 0 of level 0 of the example index.
\<close>

theorem distance_level_node_ip_returns_none:
  "distance_level_node IP example_index [1, 0] 0 0 = Inr None"
  by (simp add: distance_level_node_def get_node_def example_index_def example_node_def
      dot_rows_def same_width_def)

section \<open>Borders\<close>

text \<open>
  What the recomputation stores: the \<^verbatim>\<open>argsort\<close> of an array that is sorted already
  is \<open>[0, 1, \<dots>]\<close>, so the border index is 0 for \<open>IP\<close> and \<open>Cos\<close> and the last
  index for \<open>L2\<close>, whatever the distances are, and the border score is the distance
  the node holds there.
\<close>

lemma argsort_sort: "argsort (sort xs) = [0..<length xs]"
  using argsort_of_sorted [of "sort xs"] by simp

lemma update_node_border_info_first:
  assumes "m = IP \<or> m = Cos" "get_node idx l n = Inr nd" "distances nd \<noteq> []"
  shows "update_node_border_info m idx l n = Inr (set_node idx l n (nd\<lparr>border := (0, distances nd ! 0)\<rparr>))"
proof -
  have "[0..<length (distances nd)] = 0 # [1..<length (distances nd)]"
    using assms(3) by (simp add: upt_rec)
  then show ?thesis
    using assms(1,2) by (auto simp add: update_node_border_info_def argsort_sort)
qed

lemma update_node_border_info_last:
  assumes "get_node idx l n = Inr nd" "distances nd \<noteq> []"
  shows "update_node_border_info L2 idx l n =
     Inr (set_node idx l n (nd\<lparr>border := (int (length (distances nd) - 1), last (distances nd))\<rparr>))"
proof -
  obtain k where k: "length (distances nd) = Suc k"
    using assms(2) by (cases "distances nd") auto
  then have "rev [0..<length (distances nd)] = k # rev [0..<k]" by simp
  moreover have "distances nd ! k = last (distances nd)"
    using k assms(2) by (simp add: last_conv_nth)
  ultimately show ?thesis
    using assms(1) k by (simp add: update_node_border_info_def argsort_sort)
qed

lemma align_border_l2_example:
  "map_option (\<lambda>ix. map_option border (lvls ix (0, 0)))
     (index (fst (align_node_embeddings_and_distances (example_builder L2)))) = Some (Some (2, 4))"
  by (simp add: align_node_embeddings_and_distances_def example_builder_def range_upto_def upt_rec
      resize_node_def resize_to_def update_node_border_info_def get_node_def set_node_def
      example_index_def example_node_def argsort_def)

text \<open>
  Claim C2. After the border recomputation of the align pass, the border of a node with
  distances is \<open>(i, s)\<close>, where \<open>s\<close> is the greatest distance for L2 and the least
  for IP and cos and \<open>i\<close> is its position; for IP with the scores \<open>[3, 1, 4]\<close> it
  is \<open>(1, 1)\<close>. The align pass over the example builder, whose one node holds these
  scores, ends without an exception and leaves the border \<open>(0, 3)\<close> for IP: the
  first position and its score, which is not the least.
\<close>

theorem align_border_ip_example:
  "snd (align_node_embeddings_and_distances (example_builder IP)) = None \<and>
   map_option (\<lambda>ix. map_option border (lvls ix (0, 0)))
     (index (fst (align_node_embeddings_and_distances (example_builder IP)))) = Some (Some (0, 3))"
  by (simp add: align_node_embeddings_and_distances_def example_builder_def range_upto_def upt_rec
      resize_node_def resize_to_def update_node_border_info_def get_node_def set_node_def
      example_index_def example_node_def argsort_def)

section \<open>Selection and build\<close>

lemma level_root_pos:
  "0 \<le> tc \<Longrightarrow> 0 < lv \<Longrightarrow> level_root fpow tc lv = Inr (if tc = 0 then 0 else fpow tc lv)"
  by (simp add: level_root_def)

lemma total_clusters_nonneg: "0 < (c::int) \<Longrightarrow> 0 \<le> \<lceil>real n / real_of_int c\<rceil>"
  using ceiling_mono [of 0 "real n / real_of_int c"] by simp

text \<open>
  A call with an option other than \<^verbatim>\<open>"offset"\<close> and \<^verbatim>\<open>"random"\<close>, on a builder with a
  positive cluster size and a positive number of levels: the two derived parameters are
  assigned, then the exception is raised.
\<close>

lemma select_fails:
  assumes "0 < target_cluster_size b" "0 < levels b"
    and "opt \<noteq> ''offset''" "opt \<noteq> ''random''"
  shows "select_cluster_representatives fpow choice gather b f opt =
     (b\<lparr>total_clusters := Some \<lceil>real (length f) / real_of_int (target_cluster_size b)\<rceil>,
        node_size := Some
          \<lceil>if \<lceil>real (length f) / real_of_int (target_cluster_size b)\<rceil> = 0 then 0
           else fpow \<lceil>real (length f) / real_of_int (target_cluster_size b)\<rceil> (levels b)\<rceil>\<rparr>,
      if opt = ''dissimilar'' then Inl NotImplementedError else Inl ValueError)"
proof -
  let ?tc = "\<lceil>real (length f) / real_of_int (target_cluster_size b)\<rceil>"
  have tc: "0 \<le> ?tc" by (rule total_clusters_nonneg) (rule assms(1))
  have lr: "level_root fpow ?tc (levels b) = Inr (if ?tc = 0 then 0 else fpow ?tc (levels b))"
    by (rule level_root_pos) (rule tc, rule assms(2))
  have nz: "target_cluster_size b \<noteq> 0" using assms(1) by simp
  show ?thesis
    unfolding select_cluster_representatives_def Let_def
    by (simp only: lr nz assms(3,4) if_False sum.case) simp
qed

text \<open>
  Claim C8. \<^verbatim>\<open>select_cluster_representatives\<close> raises \<^verbatim>\<open>NotImplementedError\<close> for the
  option \<^verbatim>\<open>"dissimilar"\<close>, whatever the metric is, and \<^verbatim>\<open>ValueError\<close> for every option
  that is none of \<^verbatim>\<open>"offset"\<close>, \<^verbatim>\<open>"random"\<close> and \<^verbatim>\<open>"dissimilar"\<close>; no
  representatives are returned, and the representatives of the builder stay as they
  were. The builder has a positive cluster size and a positive number of levels, and
  the file holds any rows.
\<close>

theorem select_rejects_option:
  assumes "0 < target_cluster_size b" "0 < levels b"
  shows "snd (select_cluster_representatives fpow choice gather b f ''dissimilar'') = Inl NotImplementedError \<and>
    (opt \<noteq> ''offset'' \<and> opt \<noteq> ''random'' \<and> opt \<noteq> ''dissimilar'' \<longrightarrow>
       snd (select_cluster_representatives fpow choice gather b f opt) = Inl ValueError) \<and>
    (opt \<noteq> ''offset'' \<and> opt \<noteq> ''random'' \<longrightarrow>
       representative_ids (fst (select_cluster_representatives fpow choice gather b f opt)) =
         representative_ids b \<and>
       representative_embeddings (fst (select_cluster_representatives fpow choice gather b f opt)) =
         representative_embeddings b)"
  using assms by (simp add: select_fails)

theorem select_rejects_option_witness:
  "0 < target_cluster_size (new_builder\<lparr>metric := Cos\<rparr>) \<and> 0 < levels (new_builder\<lparr>metric := Cos\<rparr>) \<and>
   snd (select_cluster_representatives example_pow first_choice read_rows (new_builder\<lparr>metric := Cos\<rparr>)
          [[0], [1], [2]] ''dissimilar'') = Inl NotImplementedError \<and>
   snd (select_cluster_representatives example_pow first_choice read_rows (new_builder\<lparr>metric := Cos\<rparr>)
          [[0], [1], [2]] ''nearest'') = Inl ValueError \<and>
   representative_ids (fst (select_cluster_representatives example_pow first_choice read_rows
     (new_builder\<lparr>metric := Cos\<rparr>) [[0], [1], [2]] ''nearest'')) = None"
  using select_rejects_option
    [of "new_builder\<lparr>metric := Cos\<rparr>" example_pow first_choice read_rows "[[0], [1], [2]]" "''nearest''"]
  by (simp add: new_builder_def)

text \<open>
  Claim C9. When \<^verbatim>\<open>build_tree_h5\<close> is called while the representative embeddings or
  the representative ids are \<^verbatim>\<open>None\<close>, it raises its precondition error (a
  \<^verbatim>\<open>ValueError\<close>) at once and constructs nothing: the builder, its index included, is
  as before the call.
\<close>

theorem build_tree_h5_needs_representatives:
  assumes "representative_embeddings b = None \<or> representative_ids b = None"
  shows "build_tree_h5 b = (b, Some ValueError)"
  using assms by (auto simp add: build_tree_h5_def)

theorem build_tree_h5_needs_representatives_witness:
  "(representative_embeddings new_builder = None \<or> representative_ids new_builder = None) \<and>
   build_tree_h5 new_builder = (new_builder, Some ValueError) \<and> index new_builder = None"
  using build_tree_h5_needs_representatives [of new_builder] by (simp add: new_builder_def)



section \<open>The concurrent assignment\<close>

text \<open>
  The merge phase never extends an item list: the test before the extension is false
  for every list, so every cluster of every slice goes to the leaf store with no
  items, whatever the workers returned.
\<close>

lemma name_in_items_False: "name_in_items n items = False"
  by (induction items) (simp_all add: name_in_items_def)

lemma cluster_items_keeps: "cluster_items n pmaps items = Inr items"
  by (induction pmaps) (simp_all add: name_in_items_False)

lemma prepare_chunk_empty: "prepare_chunk pmaps ns = Inr (map (\<lambda>n. (n, [])) ns)"
  by (induction ns) (simp_all add: cluster_items_keeps)

lemma item_ids_resize: "item_ids (resize_node nd) = item_ids nd"
  by (simp add: resize_node_def)

lemma write_clusters_empty:
  assumes "write_clusters m nso reps idx l (map (\<lambda>n. (n, [])) ns) = (idx1, r)"
  shows "leaf_items idx1 l' n' = leaf_items idx l' n'"
  using assms
proof (induction ns arbitrary: idx)
  case Nil
  then show ?case by simp
next
  case (Cons n ns)
  show ?case
  proof (cases "get_node idx l n")
    case (Inl e)
    with Cons.prems show ?thesis by simp
  next
    case (Inr nd)
    then have nd: "lvls idx (l, n) = Some nd"
      by (simp add: get_node_def split: option.splits)
    from Cons.prems Inr
    have "write_clusters m nso reps (set_node idx l n (resize_node nd)) l (map (\<lambda>n. (n, [])) ns) = (idx1, r)"
      by simp
    from Cons.IH [OF this]
    have "leaf_items idx1 l' n' = leaf_items (set_node idx l n (resize_node nd)) l' n'" .
    also have "\<dots> = leaf_items idx l' n'"
      using nd by (simp add: leaf_items_def set_node_def item_ids_resize)
    finally show ?thesis .
  qed
qed

lemma write_clusters_empty_ok:
  assumes "\<forall>n\<in>set ns. leaf_items idx l n \<noteq> None"
  shows "snd (write_clusters m nso reps idx l (map (\<lambda>n. (n, [])) ns)) = None"
  using assms
proof (induction ns arbitrary: idx)
  case Nil
  then show ?case by simp
next
  case (Cons n ns)
  from Cons.prems obtain nd where nd: "lvls idx (l, n) = Some nd"
    by (auto simp add: leaf_items_def)
  have "\<forall>k\<in>set ns. leaf_items (set_node idx l n (resize_node nd)) l k \<noteq> None"
    using Cons.prems nd by (auto simp add: leaf_items_def set_node_def)
  from Cons.IH [OF this] nd show ?case by (simp add: get_node_def)
qed

lemma write_file_unfold:
  assumes "index b = Some idx"
  shows "write_cluster_items_to_file b cl =
     (case write_clusters (metric b) (node_size b) (representative_embeddings b) idx (levels b - 1) cl of
        (idx1, r) \<Rightarrow> (if cl = [] then b else b\<lparr>index := Some idx1\<rparr>, r))"
  using assms by (cases cl) (simp_all add: write_cluster_items_to_file_def)

lemma write_file_empty:
  assumes "write_cluster_items_to_file b (map (\<lambda>n. (n, [])) ns) = (b1, r)" "index b = Some idx"
  shows "\<exists>idx1. index b1 = Some idx1 \<and> (\<forall>l n. leaf_items idx1 l n = leaf_items idx l n)
     \<and> levels b1 = levels b"
proof -
  obtain idx1 r1 where w: "write_clusters (metric b) (node_size b) (representative_embeddings b) idx
      (levels b - 1) (map (\<lambda>n. (n, [])) ns) = (idx1, r1)" by fastforce
  from write_clusters_empty [OF w] have "\<forall>l n. leaf_items idx1 l n = leaf_items idx l n" by simp
  moreover have "b1 = (if ns = [] then b else b\<lparr>index := Some idx1\<rparr>)"
    using assms(1) w unfolding write_file_unfold [OF assms(2)] by simp
  ultimately show ?thesis using assms(2) by auto
qed

lemma write_file_empty_ok:
  assumes "index b = Some idx" "\<forall>n\<in>set ns. leaf_items idx (levels b - 1) n \<noteq> None"
  shows "snd (write_cluster_items_to_file b (map (\<lambda>n. (n, [])) ns)) = None"
proof -
  have "snd (write_clusters (metric b) (node_size b) (representative_embeddings b) idx (levels b - 1)
           (map (\<lambda>n. (n, [])) ns)) = None"
    by (rule write_clusters_empty_ok) (rule assms(2))
  then show ?thesis
    unfolding write_file_unfold [OF assms(1)] by (auto split: prod.splits)
qed

lemma merge_slices_keeps:
  assumes "merge_slices b tc chunks pmaps starts = (b1, r)" "index b = Some idx"
  shows "\<exists>idx1. index b1 = Some idx1 \<and> (\<forall>l n. leaf_items idx1 l n = leaf_items idx l n)"
  using assms
proof (induction starts arbitrary: b idx)
  case Nil
  then show ?case by simp
next
  case (Cons s starts)
  let ?cl = "map (\<lambda>n. (n, [])) (map nat (range_step s (min (s + chunks) tc) 1))"
  obtain b2 r2 where w: "write_cluster_items_to_file b ?cl = (b2, r2)" by fastforce
  from write_file_empty [OF w Cons.prems(2)]
  obtain idx2 where i2: "index b2 = Some idx2"
    and k2: "\<forall>l n. leaf_items idx2 l n = leaf_items idx l n" by blast
  show ?case
  proof (cases r2)
    case None
    with Cons.prems(1) w have "merge_slices b2 tc chunks pmaps starts = (b1, r)"
      by (simp add: prepare_chunk_empty Let_def)
    from Cons.IH [OF this i2] k2 show ?thesis by auto
  next
    case (Some e)
    with Cons.prems(1) w have "b1 = b2" by (simp add: prepare_chunk_empty Let_def)
    with i2 k2 show ?thesis by auto
  qed
qed

lemma merge_slices_ok:
  assumes "index b = Some idx"
    and "\<forall>s\<in>set starts. \<forall>n\<in>set (range_step s (min (s + chunks) tc) 1).
           leaf_items idx (levels b - 1) (nat n) \<noteq> None"
  shows "snd (merge_slices b tc chunks pmaps starts) = None"
  using assms
proof (induction starts arbitrary: b idx)
  case Nil
  then show ?case by simp
next
  case (Cons s starts)
  let ?cl = "map (\<lambda>n. (n, [])) (map nat (range_step s (min (s + chunks) tc) 1))"
  obtain b2 r2 where w: "write_cluster_items_to_file b ?cl = (b2, r2)" by fastforce
  have "snd (write_cluster_items_to_file b ?cl) = None"
    by (rule write_file_empty_ok [OF Cons.prems(1)]) (use Cons.prems(2) in auto)
  with w have r2: "r2 = None" by simp
  from write_file_empty [OF w Cons.prems(1)]
  obtain idx2 where i2: "index b2 = Some idx2"
    and k2: "\<forall>l n. leaf_items idx2 l n = leaf_items idx l n"
    and lv: "levels b2 = levels b" by blast
  have "snd (merge_slices b2 tc chunks pmaps starts) = None"
    by (rule Cons.IH [OF i2]) (use Cons.prems(2) k2 lv in auto)
  then show ?case using w r2 by (simp add: prepare_chunk_empty Let_def)
qed

text \<open>
  Whatever the workers returned and however the call ends, the item list of every leaf
  is after \<^verbatim>\<open>add_items_concurrent\<close> what it was before.
\<close>

lemma add_items_concurrent_keeps:
  assumes "add_items_concurrent b pmaps save = (b1, r)" "index b = Some idx"
  shows "\<exists>idx1. index b1 = Some idx1 \<and> (\<forall>l n. leaf_items idx1 l n = leaf_items idx l n)"
  using assms merge_slices_keeps
  by (auto simp add: add_items_concurrent_def split: if_splits option.splits)

lemma add_items_concurrent_example_ends:
  "snd (add_items_concurrent leaf_store_builder [worker_map] True) = None"
proof -
  have i: "index leaf_store_builder = Some (the (index leaf_store_builder))"
    by (simp add: leaf_store_builder_def)
  have "snd (merge_slices leaf_store_builder 20 1 [worker_map] (range_step 0 20 1)) = None"
    by (rule merge_slices_ok [OF i])
       (auto simp add: range_step_def leaf_store_builder_def leaf_items_def)
  then show ?thesis
    by (simp add: add_items_concurrent_def clst_chunks_def leaf_store_builder_def)
qed

text \<open>
  Claim C3. After the concurrent assignment with persistence, every item is in the
  item list of exactly one leaf cluster, since the merge phase gathers the entries of
  every partial node map and hands them to the leaf store. On the tree of twenty empty
  leaves, with a worker that assigned the items 0 and 1 to cluster 19, the call ends
  without an exception and every one of the twenty leaves is still empty: the two
  items are in no leaf.
\<close>

theorem add_items_concurrent_leaves_stay_empty:
  "snd (add_items_concurrent leaf_store_builder [worker_map] True) = None \<and>
   worker_map 19 = Some [(0, 1 / 2), (1, 1 / 4)] \<and>
   list_all (\<lambda>n. map_option (\<lambda>ix. leaf_items ix 0 n)
                    (index (fst (add_items_concurrent leaf_store_builder [worker_map] True)))
                 = Some (Some []))
     [0..<20]"
proof -
  obtain b1 r where a: "add_items_concurrent leaf_store_builder [worker_map] True = (b1, r)"
    by fastforce
  have i: "index leaf_store_builder = Some (the (index leaf_store_builder))"
    by (simp add: leaf_store_builder_def)
  from add_items_concurrent_keeps [OF a i]
  obtain idx1 where i1: "index b1 = Some idx1"
    and k: "\<forall>l n. leaf_items idx1 l n = leaf_items (the (index leaf_store_builder)) l n" by blast
  have "\<forall>n<20. leaf_items (the (index leaf_store_builder)) 0 n = Some []"
    by (simp add: leaf_store_builder_def leaf_items_def fresh_node_def)
  with k i1 a add_items_concurrent_example_ends show ?thesis
    by (simp add: list_all_iff worker_map_def)
qed

text \<open>
  Claim C7. For every requested number of workers, the number of worker processes is
  at most \<^verbatim>\<open>cpu_count() - 1\<close>, and a number of workers that exceeds \<^verbatim>\<open>cpu_count()\<close>
  never raises an error: it is silently clamped. As amended: whenever the request does
  not exceed \<^verbatim>\<open>cpu_count()\<close>, or \<^verbatim>\<open>cpu_count()\<close> is at least 2, the number of worker
  processes is at most \<^verbatim>\<open>cpu_count()\<close>, and at most \<^verbatim>\<open>cpu_count() - 1\<close> unless the
  request is \<^verbatim>\<open>cpu_count()\<close> itself; and a request that exceeds \<^verbatim>\<open>cpu_count()\<close>
  raises no error: the pool is created with \<^verbatim>\<open>cpu_count() - 1\<close> processes.
\<close>

theorem pool_processes_bound:
  assumes "workers \<le> cpu \<or> 2 \<le> cpu"
  shows "pool_processes workers cpu \<le> cpu \<and>
    (workers \<noteq> cpu \<longrightarrow> pool_processes workers cpu \<le> cpu - 1) \<and>
    (cpu < workers \<longrightarrow> create_pool workers cpu = Inr (cpu - 1))"
  using assms by (auto simp add: pool_processes_def create_pool_def Let_def)

theorem pool_processes_bound_witness:
  "((9 :: int) \<le> 4 \<or> (2 :: int) \<le> 4) \<and> pool_processes 9 4 \<le> 4 - 1 \<and> create_pool 9 4 = Inr 3 \<and>
   ((4 :: int) \<le> 4 \<or> (2 :: int) \<le> 4) \<and> pool_processes 4 4 \<le> 4 \<and>
   ((1 :: int) \<le> 1 \<or> (2 :: int) \<le> 1) \<and> pool_processes 1 1 \<le> 1"
  using pool_processes_bound [of 9 4] pool_processes_bound [of 4 4] pool_processes_bound [of 1 1]
  by simp

text \<open>
  With as many workers requested as \<^verbatim>\<open>cpu_count()\<close> gives, here four, the pool gets
  four processes, which is more than \<^verbatim>\<open>cpu_count() - 1\<close>. With four workers
  requested where \<^verbatim>\<open>cpu_count()\<close> is 1, the request exceeds it and the creation of
  the pool raises \<open>ValueError\<close>.
\<close>

theorem pool_processes_not_below_cpu_count:
  "\<not> pool_processes 4 4 \<le> 4 - 1 \<and> create_pool 4 1 = Inl ValueError"
  by (simp add: pool_processes_def create_pool_def)

section \<open>Search\<close>

lemma push_root_ok:
  assumes "\<forall>t\<in>set tp. t < length dists"
  shows "\<exists>fr1. push_root dists fr tp = (fr1, None) \<and>
           set fr1 = set fr \<union> (\<lambda>t. (dists ! t, False, 0, t)) ` set tp"
  using assms
proof (induction tp arbitrary: fr)
  case Nil
  then show ?case by simp
next
  case (Cons t ts)
  have t: "t < length dists" using Cons.prems by simp
  have "\<forall>t\<in>set ts. t < length dists" using Cons.prems by simp
  from Cons.IH [OF this, of "insort (dists ! t, False, 0, t) fr"]
  obtain fr1 where "push_root dists (insort (dists ! t, False, 0, t) fr) ts = (fr1, None)"
    and "set fr1 = set (insort (dists ! t, False, 0, t) fr) \<union> (\<lambda>t. (dists ! t, False, 0, t)) ` set ts"
    by blast
  then show ?case using t by (auto simp add: get_at_def set_insort_key)
qed

lemma push_root_no_leaf:
  assumes "list_all (\<lambda>entry. fst (snd entry) = False) fr"
  shows "list_all (\<lambda>entry. fst (snd entry) = False) (fst (push_root dists fr tp))"
  using assms
proof (induction tp arbitrary: fr)
  case Nil
  then show ?case by simp
next
  case (Cons t ts)
  have "list_all (\<lambda>entry. fst (snd entry) = False) (insort (d, False, 0, t) fr)" for d :: real
    using Cons.prems by (simp add: list_all_iff set_insort_key)
  from Cons.IH [OF this] Cons.prems show ?case
    by (simp add: get_at_def)
qed

text \<open>
  The branch of a node that is no leaf never reads the node id of the entry it
  expands, nor its score: the children it ranks are those of the leaf expanded last.
\<close>

lemma expand_ignores_popped_node:
  "expand m lv idx q st (sc, False, l, n) = expand m lv idx q st (sc', False, l, n')"
  by (simp add: expand_def)

text \<open>
  The loop on a frontier without an entry that is flagged as a leaf, before any leaf
  of the call: it runs no round, or its first round raises \<open>UnboundLocalError\<close>.
\<close>

lemma search_loop_no_leaf:
  assumes "list_all (\<lambda>entry. fst (snd entry) = False) fr"
  shows "search_loop m lv idx q se \<lparr>leaf_cnt = 0, frontier = fr, results = res, leaf_locals = None\<rparr> =
     (if 0 \<noteq> se \<and> fr \<noteq> []
      then Some (\<lparr>leaf_cnt = 0, frontier = tl fr, results = res, leaf_locals = None\<rparr>,
                 Some UnboundLocalError)
      else Some (\<lparr>leaf_cnt = 0, frontier = fr, results = res, leaf_locals = None\<rparr>, None))"
proof (cases fr)
  case Nil
  then show ?thesis by (subst search_loop.simps) simp
next
  case (Cons entry rest)
  obtain sc l n where e: "entry = (sc, False, l, n)"
    using assms Cons by (cases entry) auto
  show ?thesis
    by (subst search_loop.simps) (simp add: Cons e expand_def)
qed

text \<open>
  Claim C4. Whenever \<^verbatim>\<open>search_tree\<close> pops and expands a frontier candidate at level
  \<open>l\<close> that is no leaf, each of its children is pushed at level \<open>l + 1\<close> with its
  score minus (L2) or plus (IP, cos) the border score of the expanded node. In the code
  the expansion reads \<^verbatim>\<open>lvl\<close>, \<^verbatim>\<open>node\<close> and \<^verbatim>\<open>radius\<close>, which only the expansion of a
  leaf assigns: while no leaf has been expanded in the call, the expansion of any
  candidate that is no leaf raises \<^verbatim>\<open>UnboundLocalError\<close> and pushes nothing, for every
  metric, tree and query.
\<close>

theorem expand_internal_unbound:
  "expand m lv idx q (st\<lparr>leaf_locals := None\<rparr>) (sc, False, l, n) =
     (st\<lparr>leaf_locals := None\<rparr>, Some UnboundLocalError)"
  by (simp add: expand_def)

text \<open>
  Claim C5. \<^verbatim>\<open>search_tree(q, B, k, restart=True)\<close> expands exactly the least of \<open>B\<close>
  and the number of reachable leaves before it returns. In the code, for each of the
  three metrics, a root with at least one representative and a budget other than 0,
  the call does not return: it raises an exception, with no leaf expanded and the
  results empty. For a well-shaped query the exception is \<^verbatim>\<open>UnboundLocalError\<close>: the
  first candidate the loop pops is a child of the root, which is not flagged as a
  leaf. (For a query of another width the ranking against the root raises already.)
\<close>

theorem search_tree_raises_before_any_leaf:
  assumes m: "metric b = IP \<or> metric b = L2 \<or> metric b = Cos"
    and idx: "index b = Some idx"
    and refs: "root_embeddings idx = Some refs" "refs \<noteq> []"
    and B: "search_exp \<noteq> 0"
  shows "\<exists>b' fr e. search_tree b q search_exp k True = Some (b', Inl e) \<and>
           queues b' = Some (fr, []) \<and> (well_shaped refs q \<longrightarrow> e = UnboundLocalError)"
proof (cases "distance_root_node (metric b) idx q")
  case (Inl e)
  have "\<not> well_shaped refs q"
    using distance_root_node_returns [OF m refs, of q] Inl by auto
  then show ?thesis
    using Inl idx by (simp add: search_tree_def)
next
  case (Inr p)
  obtain tp dists where r: "distance_root_node (metric b) idx q = Inr (tp, dists)"
    using Inr by (cases p) auto
  from distance_root_node_shape [OF refs(1) r]
  have len: "length dists = length refs" and tp: "set tp = {0..<length refs}" by auto
  have "\<forall>t\<in>set tp. t < length dists" using tp len by simp
  from push_root_ok [OF this, of "[]"]
  obtain fr1 where p: "push_root dists [] tp = (fr1, None)"
    and s: "set fr1 = (\<lambda>t. (dists ! t, False, 0, t)) ` set tp" by auto
  have ne: "fr1 \<noteq> []" using s tp refs(2) by auto
  have nl: "list_all (\<lambda>entry. fst (snd entry) = False) fr1"
    using s by (auto simp add: list_all_iff)
  have "search_loop (metric b) (levels b) idx q search_exp
          \<lparr>leaf_cnt = 0, frontier = fr1, results = [], leaf_locals = None\<rparr>
      = Some (\<lparr>leaf_cnt = 0, frontier = tl fr1, results = [], leaf_locals = None\<rparr>,
              Some UnboundLocalError)"
    using B ne by (simp add: search_loop_no_leaf [OF nl])
  then show ?thesis
    using r p idx by (simp add: search_tree_def)
qed

theorem search_tree_raises_before_any_leaf_witness:
  "(metric (example_builder IP) = IP \<or> metric (example_builder IP) = L2 \<or> metric (example_builder IP) = Cos) \<and>
   index (example_builder IP) = Some example_index \<and>
   root_embeddings example_index = Some [[1, 0]] \<and> [[1, 0 :: real]] \<noteq> [] \<and> (1 :: int) \<noteq> 0 \<and>
   well_shaped [[1, 0]] [1, 0] \<and>
   (\<exists>b' fr. search_tree (example_builder IP) [1, 0] 1 1 True = Some (b', Inl UnboundLocalError) \<and>
      queues b' = Some (fr, []))"
proof -
  have w: "well_shaped [[1, 0]] [1, 0]"
    by (simp add: well_shaped_def same_width_def)
  have "\<exists>b' fr e. search_tree (example_builder IP) [1, 0] 1 1 True = Some (b', Inl e) \<and>
      queues b' = Some (fr, []) \<and> (well_shaped [[1, 0]] [1, 0] \<longrightarrow> e = UnboundLocalError)"
    by (rule search_tree_raises_before_any_leaf [of "example_builder IP" example_index])
       (simp_all add: example_builder_def example_index_def)
  with w show ?thesis
    by (auto simp add: example_builder_def example_index_def)
qed

text \<open>
  The drain hands out the first \<open>k\<close> entries of the ascending results and leaves the
  rest. The loop keeps the results ascending, so whenever \<^verbatim>\<open>search_tree\<close> returns a
  list, the list is ascending in the score, whatever the metric is, and has at most
  \<open>k\<close> entries.
\<close>

lemma drain_take_drop: "drain k res = (take k res, drop k res)"
  by (induction k arbitrary: res) (auto split: list.splits)

lemma push_items_sorted:
  "sorted res \<Longrightarrow> sorted (fst (push_items dists ids res tp))"
  by (induction tp arbitrary: res) (auto simp add: sorted_insort split: sum.splits)

lemma expand_sorted:
  assumes "sorted (results st)"
  shows "sorted (results (fst (expand m lv idx q st entry)))"
proof -
  obtain sc is_leaf l n where e: "entry = (sc, is_leaf, l, n)" by (cases entry) auto
  show ?thesis
  proof (cases is_leaf)
    case True
    have "\<And>nd dists tp. sorted (fst (push_items dists (item_ids nd) (results st) tp))"
      using assms by (rule push_items_sorted)
    then have "\<And>nd dists tp res r.
        push_items dists (item_ids nd) (results st) tp = (res, r) \<Longrightarrow> sorted res"
      by (metis fst_conv)
    then show ?thesis
      using assms True unfolding e expand_def
      by (auto simp add: Let_def split: sum.splits option.splits prod.splits)
  next
    case False
    then show ?thesis
      using assms unfolding e expand_def
      by (auto simp add: Let_def split: sum.splits option.splits prod.splits)
  qed
qed

lemma search_loop_sorted:
  assumes "search_loop m lv idx q se st = Some y"
  shows "sorted (results st) \<longrightarrow> sorted (results (fst y))"
proof (rule search_loop.raw_induct
    [where P = "\<lambda>m lv idx q se st y. sorted (results st) \<longrightarrow> sorted (results (fst y))",
      OF _ assms], goal_cases)
  case (1 loop m lv idx q se st y)
  show ?case
  proof
    assume srt: "sorted (results st)"
    show "sorted (results (fst y))"
    proof (cases "leaf_cnt st \<noteq> se \<and> frontier st \<noteq> []")
      case False
      with 1(2) srt show ?thesis by auto
    next
      case True
      obtain st1 r1 where
        x: "expand m lv idx q (st\<lparr>frontier := tl (frontier st)\<rparr>) (hd (frontier st)) = (st1, r1)"
        by fastforce
      have s1: "sorted (results st1)"
        using expand_sorted [of "st\<lparr>frontier := tl (frontier st)\<rparr>" m lv idx q "hd (frontier st)"]
          srt x
        by simp
      show ?thesis
      proof (cases r1)
        case None
        with 1(2) True x have "loop m lv idx q se st1 = Some y" by simp
        then have "sorted (results st1) \<longrightarrow> sorted (results (fst y))" by (rule 1(1))
        with s1 show ?thesis by simp
      next
        case (Some e)
        with 1(2) True x have "y = (st1, Some e)" by auto
        with s1 show ?thesis by simp
      qed
    qed
  qed
qed

lemma search_tree_returns_ascending:
  assumes "search_tree b q search_exp k restart = Some (b', Inr out)"
    and "restart \<or> (\<exists>fr res. queues b = Some (fr, res) \<and> sorted res)"
  shows "sorted out \<and> int (length out) \<le> max 0 k"
proof -
  let ?b1 = "if restart then b\<lparr>queues := Some ([], [])\<rparr> else b"
  show ?thesis
  proof (cases "queues ?b1")
    case None
    with assms(1) show ?thesis
      by (auto simp add: search_tree_def Let_def split: sum.splits if_splits option.splits)
  next
    case (Some qs)
    obtain fr0 res0 where qs: "qs = (fr0, res0)" by (cases qs) auto
    have s0: "sorted res0" using assms(2) Some qs by (auto split: if_splits)
    from assms(1) Some qs obtain tp dists fr1 st where
      "push_root dists fr0 tp = (fr1, None)"
      and l: "search_loop (metric ?b1) (levels ?b1) (the (index ?b1)) q search_exp
           \<lparr>leaf_cnt = 0, frontier = fr1, results = res0, leaf_locals = None\<rparr> = Some (st, None)"
      and o: "out = fst (drain (nat k) (results st))"
      by (auto simp add: search_tree_def Let_def
          split: sum.splits if_splits option.splits prod.splits)
    from search_loop_sorted [OF l] s0 have "sorted (results st)" by simp
    then show ?thesis using o by (auto simp add: drain_take_drop)
  qed
qed

text \<open>
  Claim C6. \<^verbatim>\<open>search_tree\<close> returns the list of at most \<open>k\<close> pairs of a distance and
  an item that it drains from the results, best first. In the code no call returns a
  pair. The queues of a builder are created and changed by \<^verbatim>\<open>search_tree\<close> alone, and
  every call on a builder whose queues were never created, or hold no results and no
  frontier entry that is flagged as a leaf, ends (with or without \<^verbatim>\<open>restart\<close>, for
  every metric, tree, query, budget and \<open>k\<close>), leaves the queues in such a state
  again, and either raises an exception or returns the empty list: no leaf is ever
  expanded, since the expansion of the children of the root raises first.
\<close>

theorem search_tree_returns_no_item:
  assumes "no_leaf_pending b"
  shows "\<exists>b' r. search_tree b q search_exp k restart = Some (b', r) \<and> no_leaf_pending b' \<and>
           (r = Inr [] \<or> (\<exists>e. r = Inl e))"
proof -
  define b1 where "b1 = (if restart then b\<lparr>queues := Some ([], [])\<rparr> else b)"
  have nl1: "no_leaf_pending b1"
    using assms by (simp add: b1_def no_leaf_pending_def)
  define ranked where "ranked =
    (case index b1 of
       None \<Rightarrow> (if metric b1 = OtherMetric then Inl UnboundLocalError else Inl AttributeError)
     | Some idx \<Rightarrow> distance_root_node (metric b1) idx q)"
  have st: "search_tree b q search_exp k restart =
    (case ranked of
       Inl e \<Rightarrow> Some (b1, Inl e)
     | Inr (tp, dists) \<Rightarrow>
         (case queues b1 of
            None \<Rightarrow>
              (if tp \<noteq> [] then Some (b1, Inl AttributeError)
               else if 0 \<noteq> search_exp then Some (b1, Inl AttributeError)
               else if k > 0 then Some (b1, Inl AttributeError)
               else Some (b1, Inr []))
          | Some (fr0, res0) \<Rightarrow>
              (case push_root dists fr0 tp of
                 (fr1, Some e) \<Rightarrow> Some (b1\<lparr>queues := Some (fr1, res0)\<rparr>, Inl e)
               | (fr1, None) \<Rightarrow>
                   (case search_loop (metric b1) (levels b1) (the (index b1)) q search_exp
                           \<lparr>leaf_cnt = 0, frontier = fr1, results = res0, leaf_locals = None\<rparr> of
                      None \<Rightarrow> None
                    | Some (st, Some e) \<Rightarrow>
                        Some (b1\<lparr>queues := Some (frontier st, results st)\<rparr>, Inl e)
                    | Some (st, None) \<Rightarrow>
                        (case drain (nat k) (results st) of
                           (out, res1) \<Rightarrow>
                             Some (b1\<lparr>queues := Some (frontier st, res1)\<rparr>, Inr out))))))"
    unfolding search_tree_def b1_def ranked_def Let_def by (rule refl)
  show ?thesis
  proof (cases ranked)
    case (Inl e)
    with st nl1 show ?thesis by simp
  next
    case (Inr p)
    obtain tp dists where p: "p = (tp, dists)" by (cases p) auto
    show ?thesis
    proof (cases "queues b1")
      case None
      with st Inr p nl1 show ?thesis by simp
    next
      case (Some qs)
      obtain fr0 res0 where qs: "qs = (fr0, res0)" by (cases qs) auto
      have res0: "res0 = []" and nl0: "list_all (\<lambda>entry. fst (snd entry) = False) fr0"
        using nl1 Some qs by (simp_all add: no_leaf_pending_def)
      obtain fr1 r1 where pr: "push_root dists fr0 tp = (fr1, r1)" by fastforce
      have nlf: "list_all (\<lambda>entry. fst (snd entry) = False) fr1"
        using push_root_no_leaf [OF nl0, of dists tp] pr by simp
      then have nlt: "list_all (\<lambda>entry. fst (snd entry) = False) (tl fr1)"
        by (cases fr1) simp_all
      show ?thesis
      proof (cases r1)
        case (Some e)
        with st Inr p \<open>queues b1 = Some qs\<close> qs pr res0 nlf show ?thesis
          by (simp add: no_leaf_pending_def)
      next
        case None
        note r1 = this
        show ?thesis
        proof (cases "0 \<noteq> search_exp \<and> fr1 \<noteq> []")
          case True
          with st Inr p \<open>queues b1 = Some qs\<close> qs pr res0 r1 nlt show ?thesis
            by (simp add: search_loop_no_leaf [OF nlf] no_leaf_pending_def)
        next
          case False
          with st Inr p \<open>queues b1 = Some qs\<close> qs pr res0 r1 nlf show ?thesis
            by (auto simp add: search_loop_no_leaf [OF nlf] no_leaf_pending_def drain_take_drop)
        qed
      qed
    qed
  qed
qed

text \<open>
  The theorem at the example builder for the metric cos, whose leaf holds the items 10,
  11 and 12: the call with a budget of one leaf and \<open>k = 1\<close> raises
  \<^verbatim>\<open>UnboundLocalError\<close> instead of returning the best item.
\<close>

theorem search_tree_returns_no_item_witness:
  "no_leaf_pending (example_builder Cos) \<and>
   search_tree (example_builder Cos) [1, 0] 1 1 True =
     Some ((example_builder Cos)\<lparr>queues := Some ([], [])\<rparr>, Inl UnboundLocalError) \<and>
   no_leaf_pending ((example_builder Cos)\<lparr>queues := Some ([], [])\<rparr>)"
proof -
  have n: "no_leaf_pending (example_builder Cos)"
    by (simp add: no_leaf_pending_def example_builder_def)
  have c: "cos_rows [[1, 0]] [1, 0] = Inr [1]"
    by (simp add: cos_rows_def same_width_def cosine_similarity_def dot_def l2norm_def)
  have s: "search_tree (example_builder Cos) [1, 0] 1 1 True =
     Some ((example_builder Cos)\<lparr>queues := Some ([], [])\<rparr>, Inl UnboundLocalError)"
    by (simp add: search_tree_def example_builder_def example_index_def distance_root_node_def c
        argsort_def get_at_def search_loop.simps expand_def)
  from search_tree_returns_no_item [OF n, of "[1, 0]" 1 1 True] s n
  show ?thesis by auto
qed

end
